theory Spec2Isabelle
  imports Complex_Main "HOL-Library.Sublist"
begin

section \<open>Python values, exceptions and string conversion\<close>

text \<open>
  The parameter dictionary of the backend maps string keys to arbitrary Python values.
  A float is identified by its \<^verbatim>\<open>repr\<close> (the shortest decimal text that reads back
  to the same float), which is also what \<^verbatim>\<open>str()\<close> returns for it.
\<close>

datatype pyval =
    PStr string
  | PInt int
  | PBool bool
  | PFloat string
  | PNone

datatype py_exn =
    KeyError string
  | TypeError string
  | ValueError string
  | OSError string
  | CalledProcessError int string
  | ZeroDivisionError

type_synonym params = "string \<rightharpoonup> pyval"

fun is_PStr :: "pyval \<Rightarrow> bool" where
  "is_PStr (PStr s) = True"
| "is_PStr v = False"

fun the_PStr :: "pyval \<Rightarrow> string" where
  "the_PStr (PStr s) = s"
| "the_PStr v = []"

definition digit_char :: "nat \<Rightarrow> char" where
  "digit_char d = ''0123456789'' ! d"

fun str_nat :: "nat \<Rightarrow> string" where
  "str_nat n = (if n < 10 then [digit_char n] else str_nat (n div 10) @ [digit_char (n mod 10)])"

definition str_int :: "int \<Rightarrow> string" where
  "str_int i = (if i < 0 then CHR ''-'' # str_nat (nat (- i)) else str_nat (nat i))"

text \<open>\<^verbatim>\<open>str(v)\<close>, which is also how an f-string renders \<^verbatim>\<open>{v}\<close>.\<close>

fun py_str :: "pyval \<Rightarrow> string" where
  "py_str (PStr s) = s"
| "py_str (PInt i) = str_int i"
| "py_str (PBool b) = (if b then ''True'' else ''False'')"
| "py_str (PFloat r) = r"
| "py_str PNone = ''None''"

text \<open>The name of a value's type, as it appears in the messages of a \<^verbatim>\<open>TypeError\<close>.\<close>

fun type_name :: "pyval \<Rightarrow> string" where
  "type_name (PStr s) = ''str''"
| "type_name (PInt i) = ''int''"
| "type_name (PBool b) = ''bool''"
| "type_name (PFloat r) = ''float''"
| "type_name PNone = ''NoneType''"

text \<open>\<^verbatim>\<open>str(e)\<close> of an exception; a \<^verbatim>\<open>KeyError\<close> shows the repr of its key.\<close>

fun exn_str :: "py_exn \<Rightarrow> string" where
  "exn_str (KeyError k) = [CHR 0x27] @ k @ [CHR 0x27]"
| "exn_str (TypeError m) = m"
| "exn_str (ValueError m) = m"
| "exn_str (OSError m) = m"
| "exn_str (CalledProcessError rc err) =
     ''Command returned non-zero exit status '' @ str_int rc @ ''.''"
| "exn_str ZeroDivisionError = ''division by zero''"

section \<open>r_executor.py: build_r_command\<close>

text \<open>
  \<^verbatim>\<open>if key in params: command.extend([flag, str(params[key])])\<close> for the numeric
  options, and \<^verbatim>\<open>command.extend([flag, params[key]])\<close> (the raw value) for
  \<^verbatim>\<open>distance\<close> and \<^verbatim>\<open>cell_line\<close>.
\<close>

definition opt_str :: "params \<Rightarrow> string \<Rightarrow> string \<Rightarrow> pyval list" where
  "opt_str ps key flag =
     (case ps key of None \<Rightarrow> [] | Some v \<Rightarrow> [PStr flag, PStr (py_str v)])"

definition opt_raw :: "params \<Rightarrow> string \<Rightarrow> string \<Rightarrow> pyval list" where
  "opt_raw ps key flag =
     (case ps key of None \<Rightarrow> [] | Some v \<Rightarrow> [PStr flag, v])"

definition optional_arguments :: "params \<Rightarrow> pyval list" where
  "optional_arguments ps =
     opt_str ps ''ngene_chr'' ''--ngene_chr''
   @ opt_str ps ''win_size'' ''--win_size''
   @ opt_str ps ''n_cores'' ''--cores''
   @ opt_str ps ''LOW_DR'' ''--low_dr''
   @ opt_str ps ''UP_DR'' ''--up_dr''
   @ opt_str ps ''KS_cut'' ''--ks_cut''
   @ opt_raw ps ''distance'' ''--distance''
   @ opt_raw ps ''cell_line'' ''--cell_line''"

text \<open>
  The four subscript reads \<^verbatim>\<open>params['input_file']\<close>, \<^verbatim>\<open>params['output_dir']\<close>,
  \<^verbatim>\<open>params['sample_name']\<close>, \<^verbatim>\<open>params['genome']\<close> happen in this order and raise
  \<^verbatim>\<open>KeyError\<close> on a missing key.
\<close>

definition build_r_command :: "string \<Rightarrow> params \<Rightarrow> py_exn + pyval list" where
  "build_r_command script_path ps =
     (case ps ''input_file'' of None \<Rightarrow> Inl (KeyError ''input_file'') | Some inp \<Rightarrow>
     (case ps ''output_dir'' of None \<Rightarrow> Inl (KeyError ''output_dir'') | Some out \<Rightarrow>
     (case ps ''sample_name'' of None \<Rightarrow> Inl (KeyError ''sample_name'') | Some nm \<Rightarrow>
     (case ps ''genome'' of None \<Rightarrow> Inl (KeyError ''genome'') | Some g \<Rightarrow>
        Inr ([PStr ''Rscript'', PStr script_path]
             @ [PStr ''--input'', inp]
             @ [PStr ''--output'', out]
             @ [PStr ''--name'', nm]
             @ [PStr ''--genome'', g]
             @ optional_arguments ps)))))"

section \<open>The environment of a run\<close>

text \<open>
  Everything the backend reads from outside is a field of \<open>world\<close>: what
  \<^verbatim>\<open>subprocess.run\<close> does with a command (raise, or complete with a return code and the
  captured stdout and stderr), what \<^verbatim>\<open>Path(p).exists()\<close> does for a path (raise
  \<^verbatim>\<open>OSError\<close>, as for a path that cannot be examined, or answer), what enumerating a
  directory through \<^verbatim>\<open>glob\<close> does (raise, or give the entries in the order of
  enumeration, each with its name and with what \<^verbatim>\<open>stat()\<close> does for it: raise, as for a
  dangling link, or give \<^verbatim>\<open>st_mtime\<close>), how \<^verbatim>\<open>pathlib\<close> joins and prints paths,
  what \<^verbatim>\<open>pandas.read_csv\<close> returns for a path (raise, or a table), and the clock.
\<close>

datatype cell = CText string | CNum rat | CMissing

record dataframe =
  n_rows :: nat
  columns :: "(string \<times> cell list) list"

record world =
  subprocess_run :: "string list \<Rightarrow> py_exn + (int \<times> string \<times> string)"
  path_exists :: "string \<Rightarrow> py_exn + bool"
  scandir :: "string \<Rightarrow> py_exn + (string \<times> (py_exn + int)) list"
  joinpath :: "string \<Rightarrow> string \<Rightarrow> string"
  read_csv :: "string \<Rightarrow> py_exn + dataframe"
  clock_start :: rat
  clock_end :: rat
  now_iso :: string
  project_root :: string

section \<open>Locating the output directory\<close>

text \<open>
  Matching of one path component against a glob pattern: \<^verbatim>\<open>*\<close> stands for any run of
  characters, \<^verbatim>\<open>?\<close> for one character, anything else for itself. Bracket classes are
  not modelled; the theorems on the locator assume a sample name without \<^verbatim>\<open>*\<close>,
  \<^verbatim>\<open>?\<close>, \<^verbatim>\<open>[\<close> and \<^verbatim>\<open>/\<close>, where the pattern has no bracket and a single
  component.
\<close>

fun glob_match :: "string \<Rightarrow> string \<Rightarrow> bool" where
  "glob_match [] s = (s = [])"
| "glob_match (p # ps) [] = (p = CHR ''*'' \<and> glob_match ps [])"
| "glob_match (p # ps) (c # cs) =
     (if p = CHR ''*'' then glob_match ps (c # cs) \<or> glob_match (p # ps) cs
      else (p = CHR ''?'' \<or> p = c) \<and> glob_match ps cs)"

text \<open>
  Python's \<^verbatim>\<open>max(xs, key=k)\<close>: the key of each element is computed once, in order,
  and an exception of the key leaves \<^verbatim>\<open>max\<close>; the running maximum is replaced only by
  an element whose key is strictly greater, so the first of several maximal elements is
  returned. \<open>max_by_key\<close> is the loop, with the running maximum and its key.
\<close>

fun max_by_key :: "('a \<Rightarrow> py_exn + 'k::linorder) \<Rightarrow> 'a \<Rightarrow> 'k \<Rightarrow> 'a list \<Rightarrow> py_exn + 'a" where
  "max_by_key k best bk [] = Inr best"
| "max_by_key k best bk (x # xs) =
     (case k x of
        Inl e \<Rightarrow> Inl e
      | Inr kx \<Rightarrow> if bk < kx then max_by_key k x kx xs else max_by_key k best bk xs)"

definition py_max :: "('a \<Rightarrow> py_exn + 'k::linorder) \<Rightarrow> 'a list \<Rightarrow> py_exn + 'a" where
  "py_max k xs =
     (case xs of
        [] \<Rightarrow> Inl (ValueError ''max() arg is an empty sequence'')
      | x # rest \<Rightarrow> (case k x of Inl e \<Rightarrow> Inl e | Inr kx \<Rightarrow> max_by_key k x kx rest))"

text \<open>\<^verbatim>\<open>list(base.glob(pattern))\<close>\<close>

definition glob_dir ::
  "world \<Rightarrow> string \<Rightarrow> string \<Rightarrow> py_exn + (string \<times> (py_exn + int)) list" where
  "glob_dir w base pattern =
     (case scandir w base of
        Inl e \<Rightarrow> Inl e
      | Inr entries \<Rightarrow> Inr (filter (\<lambda>e. glob_match pattern (fst e)) entries))"

text \<open>
  The function has no handler: an exception of \<^verbatim>\<open>exists()\<close>, of the enumeration or of
  \<^verbatim>\<open>stat()\<close> leaves it.
\<close>

definition find_output_directory :: "world \<Rightarrow> string \<Rightarrow> string \<Rightarrow> py_exn + string option" where
  "find_output_directory w base_dir sample_name =
     (case path_exists w base_dir of
        Inl e \<Rightarrow> Inl e
      | Inr ex \<Rightarrow>
          if \<not> ex then Inr None
          else (case glob_dir w base_dir (sample_name @ ''_*'') of
                  Inl e \<Rightarrow> Inl e
                | Inr matching_dirs \<Rightarrow>
                    if matching_dirs \<noteq> []
                    then (case py_max snd matching_dirs of
                            Inl e \<Rightarrow> Inl e
                          | Inr p \<Rightarrow> Inr (Some (joinpath w base_dir (fst p))))
                    else Inr None))"

definition get_absolute_path :: "world \<Rightarrow> string \<Rightarrow> string" where
  "get_absolute_path w relative_path = joinpath w (project_root w) relative_path"

definition find_latest_result :: "world \<Rightarrow> string \<Rightarrow> string \<Rightarrow> py_exn + string option" where
  "find_latest_result w sample_name results_dir =
     (let results_path = get_absolute_path w results_dir in
      case path_exists w results_path of
        Inl e \<Rightarrow> Inl e
      | Inr ex \<Rightarrow>
          if \<not> ex then Inr None
          else (case glob_dir w results_path (sample_name @ ''_*'') of
                  Inl e \<Rightarrow> Inl e
                | Inr matches \<Rightarrow>
                    if matches = [] then Inr None
                    else (case py_max snd matches of
                            Inl e \<Rightarrow> Inl e
                          | Inr latest \<Rightarrow> Inr (Some (joinpath w results_path (fst latest))))))"

text \<open>
  The dictionary comprehension \<^verbatim>\<open>{k: v for k, v in files.items() if Path(v).exists()}\<close>:
  the entries are tested in order, and an exception of a test leaves it.
\<close>

fun existing_files :: "world \<Rightarrow> (string \<times> string) list \<Rightarrow> py_exn + (string \<times> string) list" where
  "existing_files w [] = Inr []"
| "existing_files w (kv # kvs) =
     (case path_exists w (snd kv) of
        Inl e \<Rightarrow> Inl e
      | Inr ex \<Rightarrow>
          (case existing_files w kvs of
             Inl e \<Rightarrow> Inl e
           | Inr rest \<Rightarrow> Inr (if ex then kv # rest else rest)))"

definition locate_output_files ::
  "world \<Rightarrow> string \<Rightarrow> string \<Rightarrow> py_exn + (string \<times> string) list" where
  "locate_output_files w output_dir sample_name =
     existing_files w
       [(''predictions'', joinpath w output_dir (sample_name @ ''_copykat_prediction.txt'')),
        (''cna_results'', joinpath w output_dir (sample_name @ ''_copykat_CNA_results.txt'')),
        (''heatmap'', joinpath w output_dir (sample_name @ ''_copykat_heatmap.jpeg'')),
        (''log'', joinpath w (joinpath w output_dir ''logs'') ''analysis.log''),
        (''report'', joinpath w output_dir (sample_name @ ''_report.html''))]"

section \<open>Summary statistics\<close>

text \<open>
  A Python float that the summaries hold: a number, or NaN (the mean of no values).
  Arithmetic is exact; rounding is not modelled.
\<close>

datatype pyfloat = Fin rat | NaN

text \<open>
  The summary dictionary. \<open>mean_confidence = None\<close> says that the dictionary has no
  \<^verbatim>\<open>'mean_confidence'\<close> key.
\<close>

record summary_stats =
  n_cells :: nat
  n_aneuploid :: nat
  n_diploid :: nat
  n_not_defined :: nat
  aneuploid_fraction :: rat
  mean_confidence :: "pyfloat option"

text \<open>\<^verbatim>\<open>a / b\<close> on integers raises on a zero divisor.\<close>

definition truediv :: "nat \<Rightarrow> nat \<Rightarrow> py_exn + rat" where
  "truediv a b = (if b = 0 then Inl ZeroDivisionError else Inr (of_nat a / of_nat b))"

text \<open>\<^verbatim>\<open>column in df.columns\<close> and \<^verbatim>\<open>df[column]\<close>.\<close>

definition column :: "dataframe \<Rightarrow> string \<Rightarrow> cell list option" where
  "column df name = map_of (columns df) name"

text \<open>\<^verbatim>\<open>series.value_counts().get(label, 0)\<close>: the number of cells holding the label.\<close>

definition value_count :: "cell list \<Rightarrow> string \<Rightarrow> nat" where
  "value_count col label = length (filter (\<lambda>c. c = CText label) col)"

fun numbers :: "cell list \<Rightarrow> rat list" where
  "numbers [] = []"
| "numbers (CNum x # cs) = x # numbers cs"
| "numbers (c # cs) = numbers cs"

fun is_text :: "cell \<Rightarrow> bool" where
  "is_text (CText s) = True"
| "is_text c = False"

text \<open>
  \<^verbatim>\<open>series.mean()\<close> of pandas: missing values are skipped, the mean of no values is
  NaN, and a column holding text raises \<^verbatim>\<open>TypeError\<close>.
\<close>

definition series_mean :: "cell list \<Rightarrow> py_exn + pyfloat" where
  "series_mean col =
     (if list_ex is_text col then Inl (TypeError ''Could not convert to numeric'')
      else (let xs = numbers col in
            if xs = [] then Inr NaN else Inr (Fin (sum_list xs / of_nat (length xs)))))"

text \<open>
  The block both summary functions share: count the three labels of
  \<^verbatim>\<open>copykat.pred\<close> and divide when there is a row. The dictionary is updated in
  place, so the result is the dictionary as it stands, with the exception raised, if any.
\<close>

definition count_predictions ::
  "dataframe \<Rightarrow> summary_stats \<Rightarrow> summary_stats \<times> py_exn option" where
  "count_predictions df s =
     (case column df ''copykat.pred'' of
        None \<Rightarrow> (s, None)
      | Some col \<Rightarrow>
          (let s1 = s\<lparr>n_aneuploid := value_count col ''aneuploid'',
                       n_diploid := value_count col ''diploid'',
                       n_not_defined := value_count col ''not.defined''\<rparr>
           in if n_cells s1 > 0
              then (case truediv (n_aneuploid s1) (n_cells s1) of
                      Inl e \<Rightarrow> (s1, Some e)
                    | Inr q \<Rightarrow> (s1\<lparr>aneuploid_fraction := q\<rparr>, None))
              else (s1, None)))"

subsection \<open>result_parser.py\<close>

definition parse_predictions :: "world \<Rightarrow> string \<Rightarrow> py_exn + dataframe" where
  "parse_predictions w file_path =
     (case read_csv w file_path of
        Inl e \<Rightarrow> Inl (ValueError (''Error parsing predictions file: '' @ exn_str e))
      | Inr df \<Rightarrow> Inr df)"

definition generate_summary :: "dataframe \<Rightarrow> py_exn + summary_stats" where
  "generate_summary predictions =
     (case count_predictions predictions
             \<lparr>n_cells = n_rows predictions, n_aneuploid = 0, n_diploid = 0,
              n_not_defined = 0, aneuploid_fraction = 0, mean_confidence = Some (Fin 0)\<rparr> of
        (s, Some e) \<Rightarrow> Inl e
      | (s, None) \<Rightarrow>
          (case column predictions ''copykat.confidence'' of
             None \<Rightarrow> Inr s
           | Some col \<Rightarrow>
               (case series_mean col of
                  Inl e \<Rightarrow> Inl e
                | Inr m \<Rightarrow> Inr (s\<lparr>mean_confidence := Some m\<rparr>))))"

subsection \<open>r_executor.py\<close>

definition zero_summary :: summary_stats where
  "zero_summary =
     \<lparr>n_cells = 0, n_aneuploid = 0, n_diploid = 0, n_not_defined = 0,
      aneuploid_fraction = 0, mean_confidence = None\<rparr>"

text \<open>
  The body of the \<^verbatim>\<open>try\<close> in \<^verbatim>\<open>extract_summary_statistics\<close>, from the
  initial dictionary: the dictionary as it stands at the end or at the exception.
\<close>

definition summary_try ::
  "world \<Rightarrow> string \<Rightarrow> summary_stats \<Rightarrow> summary_stats \<times> py_exn option" where
  "summary_try w predictions_file s =
     (case read_csv w predictions_file of
        Inl e \<Rightarrow> (s, Some e)
      | Inr df \<Rightarrow> count_predictions df (s\<lparr>n_cells := n_rows df\<rparr>))"

text \<open>
  \<^verbatim>\<open>if predictions_file and Path(predictions_file).exists():\<close> is evaluated before the
  \<^verbatim>\<open>try\<close>, so an exception of \<^verbatim>\<open>exists()\<close> leaves the function; inside,
  \<^verbatim>\<open>except Exception: pass\<close> drops the exception, and the dictionary is returned as it
  stands.
\<close>

definition extract_summary_statistics ::
  "world \<Rightarrow> (string \<times> string) list \<Rightarrow> py_exn + summary_stats" where
  "extract_summary_statistics w files =
     (case map_of files ''predictions'' of
        None \<Rightarrow> Inr zero_summary
      | Some predictions_file \<Rightarrow>
          if predictions_file = [] then Inr zero_summary
          else (case path_exists w predictions_file of
                  Inl e \<Rightarrow> Inl e
                | Inr ex \<Rightarrow>
                    if ex then Inr (fst (summary_try w predictions_file zero_summary))
                    else Inr zero_summary))"

section \<open>r_executor.py: run_copykat_analysis\<close>

text \<open>
  The result dictionary. \<open>summary = None\<close> is the empty dictionary \<^verbatim>\<open>{}\<close> of the
  failure results, \<open>timestamp = None\<close> says that the key is not there, and
  \<open>error = None\<close>, \<open>output_dir = None\<close> are Python's \<^verbatim>\<open>None\<close>.
\<close>

record result_bundle =
  success :: bool
  error :: "string option"
  output_dir :: "string option"
  files :: "(string \<times> string) list"
  summary :: "summary_stats option"
  runtime_minutes :: rat
  timestamp :: "string option"

definition failure :: "string \<Rightarrow> rat \<Rightarrow> result_bundle" where
  "failure msg runtime =
     \<lparr>success = False, error = Some msg, output_dir = None, files = [],
      summary = None, runtime_minutes = runtime, timestamp = None\<rparr>"

definition required_params :: "string list" where
  "required_params = [''input_file'', ''sample_name'', ''output_dir'', ''genome'']"

text \<open>The validation loop returns at the first required key that is not in the dictionary.\<close>

fun first_missing :: "params \<Rightarrow> string list \<Rightarrow> string option" where
  "first_missing ps [] = None"
| "first_missing ps (k # ks) = (if ps k = None then Some k else first_missing ps ks)"

definition r_script_path :: string where
  "r_script_path = ''backend/r_scripts/copykat_analysis.R''"

text \<open>
  \<^verbatim>\<open>subprocess.run(command, capture_output=True, text=True, check=True)\<close>: an argument
  that is not a string raises \<^verbatim>\<open>TypeError\<close> before anything is started; a non-zero
  return code raises \<^verbatim>\<open>CalledProcessError\<close> with the code and the captured stderr.
\<close>

definition py_subprocess_run :: "world \<Rightarrow> pyval list \<Rightarrow> py_exn + (int \<times> string \<times> string)" where
  "py_subprocess_run w command =
     (case filter (\<lambda>v. \<not> is_PStr v) command of
        v # vs \<Rightarrow> Inl (TypeError (''expected str, bytes or os.PathLike object, not '' @ type_name v))
      | [] \<Rightarrow>
          (case subprocess_run w (map the_PStr command) of
             Inl e \<Rightarrow> Inl e
           | Inr (rc, out, err) \<Rightarrow>
               if rc \<noteq> 0 then Inl (CalledProcessError rc err) else Inr (rc, out, err)))"

text \<open>
  The body of the \<^verbatim>\<open>try\<close>. \<^verbatim>\<open>Path(base_dir)\<close> raises \<^verbatim>\<open>TypeError\<close> on a value
  that is not a string; the sample name goes through f-strings only. An exception of the
  locator, of the file tests or of the summary leaves the body.
\<close>

definition run_try :: "world \<Rightarrow> params \<Rightarrow> pyval list \<Rightarrow> py_exn + result_bundle" where
  "run_try w ps command =
     (case py_subprocess_run w command of
        Inl e \<Rightarrow> Inl e
      | Inr completed \<Rightarrow>
          (let runtime = (clock_end w - clock_start w) / 60 in
           case ps ''output_dir'' of
             None \<Rightarrow> Inl (KeyError ''output_dir'')
           | Some base \<Rightarrow>
           (case ps ''sample_name'' of
             None \<Rightarrow> Inl (KeyError ''sample_name'')
           | Some nm \<Rightarrow>
           (case base of
             PStr base_dir \<Rightarrow>
               (case find_output_directory w base_dir (py_str nm) of
                  Inl e \<Rightarrow> Inl e
                | Inr None \<Rightarrow> Inr (failure ''Output directory not found'' runtime)
                | Inr (Some dir) \<Rightarrow>
                    if dir = [] then Inr (failure ''Output directory not found'' runtime)
                    else (case locate_output_files w dir (py_str nm) of
                            Inl e \<Rightarrow> Inl e
                          | Inr fs \<Rightarrow>
                              (case extract_summary_statistics w fs of
                                 Inl e \<Rightarrow> Inl e
                               | Inr sm \<Rightarrow>
                                   Inr \<lparr>success = True, error = None, output_dir = Some dir,
                                        files = fs, summary = Some sm,
                                        runtime_minutes = runtime,
                                        timestamp = Some (now_iso w)\<rparr>)))
           | v \<Rightarrow> Inl (TypeError (''expected str, bytes or os.PathLike object, not '' @ type_name v))))))"

text \<open>
  The whole function: the result dictionary (or the exception that leaves the function),
  with the list of commands handed to \<^verbatim>\<open>subprocess.run\<close>.
\<close>

definition run_copykat_analysis ::
  "world \<Rightarrow> params \<Rightarrow> (py_exn + result_bundle) \<times> pyval list list" where
  "run_copykat_analysis w ps =
     (case first_missing ps required_params of
        Some param \<Rightarrow> (Inr (failure (''Missing required parameter: '' @ param) 0), [])
      | None \<Rightarrow>
          (case build_r_command r_script_path ps of
             Inl e \<Rightarrow> (Inl e, [])
           | Inr command \<Rightarrow>
               (case run_try w ps command of
                  Inr r \<Rightarrow> (Inr r, [command])
                | Inl (CalledProcessError rc err) \<Rightarrow>
                    (Inr (failure (''R script failed: '' @ err) 0), [command])
                | Inl e \<Rightarrow>
                    (Inr (failure (''Unexpected error: '' @ exn_str e) 0), [command]))))"

section \<open>status_monitor.py: monitor_analysis_progress\<close>

text \<open>
  A progress dictionary. \<open>success_ev\<close> and \<open>error_code\<close> are \<open>None\<close> where the
  dictionary has no \<^verbatim>\<open>'success'\<close> or \<^verbatim>\<open>'error_code'\<close> key.
\<close>

record progress_event =
  progress :: rat
  message :: string
  stage :: string
  complete :: bool
  success_ev :: "bool option"
  error_code :: "int option"

text \<open>
  The monitored process: \<open>poll p i\<close> is what the call number \<open>i\<close> of
  \<^verbatim>\<open>process.poll()\<close> returns (\<open>None\<close> while the process runs, its return code after),
  and \<open>log_progress p i\<close> is the message read from the log file at that moment
  (\<open>None\<close> when no log file is given, it does not exist, or
  \<^verbatim>\<open>parse_log_for_progress\<close> returns \<^verbatim>\<open>None\<close>). The log file is optional; when one
  is given, its path is taken to be one that \<^verbatim>\<open>Path(log_file).exists()\<close> can examine, so
  that the test answers and does not raise.
\<close>

record process =
  poll :: "nat \<Rightarrow> int option"
  log_progress :: "nat \<Rightarrow> string option"

definition stages :: "(rat \<times> string) list" where
  "stages =
     [(1 / 10, ''Loading and validating data...''),
      (2 / 10, ''Quality control assessment...''),
      (3 / 10, ''Preprocessing data...''),
      (4 / 10, ''Running CopyKAT analysis...''),
      (9 / 10, ''Processing results...''),
      (1, ''Complete!'')]"

definition stage_event :: "process \<Rightarrow> nat \<Rightarrow> nat \<Rightarrow> progress_event" where
  "stage_event p tick current_stage =
     \<lparr>progress = fst (stages ! current_stage),
      message = (case log_progress p tick of
                   None \<Rightarrow> snd (stages ! current_stage)
                 | Some detailed_message \<Rightarrow>
                     if detailed_message \<noteq> [] then detailed_message
                     else snd (stages ! current_stage)),
      stage = ''Stage '' @ str_nat (current_stage + 1) @ ''/'' @ str_nat (length stages),
      complete = False,
      success_ev = None,
      error_code = None\<rparr>"

text \<open>
  The \<^verbatim>\<open>while process.poll() is None\<close> loop, from the poll number \<open>tick\<close> on, with
  the events yielded so far. It returns when a poll gives a return code, and not at all
  when none does.
\<close>

partial_function (option) monitor_loop ::
  "process \<Rightarrow> nat \<Rightarrow> nat \<Rightarrow> progress_event list \<Rightarrow> (int \<times> progress_event list) option" where
  "monitor_loop p tick current_stage evs =
     (case poll p tick of
        Some return_code \<Rightarrow> Some (return_code, evs)
      | None \<Rightarrow>
          if current_stage < length stages
          then monitor_loop p (Suc tick) (Suc current_stage)
                 (evs @ [stage_event p tick current_stage])
          else monitor_loop p (Suc tick) current_stage evs)"

definition final_event :: "int \<Rightarrow> progress_event" where
  "final_event return_code =
     (if return_code = 0
      then \<lparr>progress = 1, message = ''Analysis completed successfully!'',
            stage = ''Complete'', complete = True, success_ev = Some True,
            error_code = None\<rparr>
      else \<lparr>progress = 0, message = ''Analysis failed with code '' @ str_int return_code,
            stage = ''Error'', complete = True, success_ev = Some False,
            error_code = Some return_code\<rparr>)"

text \<open>The sequence of all dictionaries the generator yields, when it comes to its end.\<close>

definition monitor_analysis_progress :: "process \<Rightarrow> progress_event list option" where
  "monitor_analysis_progress p =
     (case monitor_loop p 0 0 [] of
        None \<Rightarrow> None
      | Some (return_code, evs) \<Rightarrow> Some (evs @ [final_event return_code]))"

section \<open>Sample names\<close>

text \<open>
  A character is a code point below 256. \<^verbatim>\<open>str.isalnum\<close> holds of the ASCII letters
  and digits and of the letters and numeric characters of the Latin-1 supplement; code
  points from 256 on are outside this model.
\<close>

definition ascii_alnum :: "char \<Rightarrow> bool" where
  "ascii_alnum c =
     (let n = (of_char c :: nat)
      in (48 \<le> n \<and> n \<le> 57) \<or> (65 \<le> n \<and> n \<le> 90) \<or> (97 \<le> n \<and> n \<le> 122))"

definition latin1_alnum :: "char \<Rightarrow> bool" where
  "latin1_alnum c =
     (let n = (of_char c :: nat)
      in n \<in> {170, 178, 179, 181, 185, 186, 188, 189, 190}
         \<or> (192 \<le> n \<and> n \<le> 214) \<or> (216 \<le> n \<and> n \<le> 246) \<or> (248 \<le> n \<and> n \<le> 255))"

definition isalnum :: "string \<Rightarrow> bool" where
  "isalnum s = (s \<noteq> [] \<and> list_all (\<lambda>c. ascii_alnum c \<or> latin1_alnum c) s)"

text \<open>\<^verbatim>\<open>name.replace('_', '')\<close>\<close>

definition remove_underscores :: "string \<Rightarrow> string" where
  "remove_underscores name = filter (\<lambda>c. c \<noteq> CHR ''_'') name"

subsection \<open>shared/utils.py\<close>

definition validate_sample_name :: "string \<Rightarrow> bool \<times> string" where
  "validate_sample_name name =
     (if name = [] then (False, ''Sample name cannot be empty'')
      else if \<not> isalnum (remove_underscores name)
        then (False, ''Sample name must be alphanumeric (underscores allowed)'')
      else if length name > 50 then (False, ''Sample name too long (max 50 characters)'')
      else (True, []))"

subsection \<open>frontend/utils/validators.py\<close>

text \<open>
  The sample-name block of \<^verbatim>\<open>validate_parameters\<close>: the errors it appends for the
  string found under \<^verbatim>\<open>'sample_name'\<close> (the empty string when the key is missing).
\<close>

definition sample_name_errors :: "string \<Rightarrow> string list" where
  "sample_name_errors sample_name =
     (if sample_name = [] then [''Sample name is required'']
      else if \<not> isalnum (remove_underscores sample_name)
        then [''Sample name must be alphanumeric (underscores allowed)'']
      else [])"

section \<open>Properties named by the specification\<close>

text \<open>
  The invariant of a result: a success has an output directory and no error, a failure
  has an error.
\<close>

definition bundle_invariant :: "result_bundle \<Rightarrow> bool" where
  "bundle_invariant r =
     ((success r \<longrightarrow> output_dir r \<noteq> None \<and> error r = None)
      \<and> (\<not> success r \<longrightarrow> error r \<noteq> None))"

text \<open>A sample name in which no character has a meaning for \<^verbatim>\<open>glob\<close>.\<close>

definition glob_free :: "string \<Rightarrow> bool" where
  "glob_free s =
     list_all (\<lambda>c. c \<noteq> CHR ''*'' \<and> c \<noteq> CHR ''?'' \<and> c \<noteq> CHR ''['' \<and> c \<noteq> CHR ''/'') s"

text \<open>Python's \<^verbatim>\<open><\<close> on strings: lexicographic, by code point.\<close>

definition name_less :: "string \<Rightarrow> string \<Rightarrow> bool" where
  "name_less a b = ((a, b) \<in> lexord {(c, d). (of_char c :: nat) < of_char d})"

section \<open>Concrete environments\<close>

text \<open>
  A run that succeeds: the engine returns 0, the output directory holds two results of
  sample \<^verbatim>\<open>s1\<close> with the same modification time and one of another sample, and the
  predictions table is the three-cell table of the specification's scenario.
\<close>

definition demo_table :: dataframe where
  "demo_table =
     \<lparr>n_rows = 3,
      columns =
        [(''cell.names'', [CText ''cell1'', CText ''cell2'', CText ''cell3'']),
         (''copykat.pred'', [CText ''aneuploid'', CText ''diploid'', CText ''aneuploid'']),
         (''copykat.confidence'', [CNum (9 / 10), CNum (8 / 10), CNum (95 / 100)])]\<rparr>"

definition demo_world :: world where
  "demo_world =
     \<lparr>subprocess_run = (\<lambda>cmd. Inr (0, ''done'', [])),
      path_exists = (\<lambda>p. Inr True),
      scandir = (\<lambda>d. if d = ''out''
                     then Inr [(''s1_a'', Inr 5), (''s1_b'', Inr 5), (''s2_x'', Inr 9)]
                     else Inr []),
      joinpath = (\<lambda>a b. a @ ''/'' @ b),
      read_csv = (\<lambda>p. Inr demo_table),
      clock_start = 0,
      clock_end = 120,
      now_iso = ''2024-01-15T10:00:00'',
      project_root = ''/srv/app''\<rparr>"

definition demo_params :: params where
  "demo_params =
     [''input_file'' \<mapsto> PStr ''data/matrix.txt'',
      ''sample_name'' \<mapsto> PStr ''s1'',
      ''output_dir'' \<mapsto> PStr ''out'',
      ''genome'' \<mapsto> PStr ''hg20'']"

text \<open>The engine exits with code 1 and the text \<^verbatim>\<open>boom\<close> on stderr.\<close>

definition failing_world :: world where
  "failing_world = demo_world\<lparr>subprocess_run := (\<lambda>cmd. Inr (1, [], ''boom''))\<rparr>"

text \<open>The predictions file exists and \<^verbatim>\<open>read_csv\<close> cannot parse it.\<close>

definition malformed_world :: world where
  "malformed_world =
     demo_world\<lparr>read_csv := (\<lambda>p. Inl (ValueError ''Error tokenizing data''))\<rparr>"

text \<open>
  A process that runs for two polls and exits with code 3, with a log line at the second
  poll.
\<close>

definition demo_process :: process where
  "demo_process =
     \<lparr>poll = (\<lambda>i. if i < 2 then None else Some 3),
      log_progress = (\<lambda>i. if i = 1 then Some ''Filtering cells'' else None)\<rparr>"

text \<open>Tables: every column has as many cells as the table has rows.\<close>

definition wf_dataframe :: "dataframe \<Rightarrow> bool" where
  "wf_dataframe df = list_all (\<lambda>nc. length (snd nc) = n_rows df) (columns df)"

text \<open>
  A table with the two columns and no row, and a one-row table without a confidence
  column.
\<close>

definition empty_table :: dataframe where
  "empty_table = \<lparr>n_rows = 0, columns = [(''copykat.pred'', []), (''copykat.confidence'', [])]\<rparr>"

definition unscored_table :: dataframe where
  "unscored_table = \<lparr>n_rows = 1, columns = [(''copykat.pred'', [CText ''diploid''])]\<rparr>"

text \<open>
  The specification's rule for a sample name, \<^verbatim>\<open>[A-Za-z0-9_]+\<close>, and the strings made
  of ASCII characters only.
\<close>

definition is_ascii :: "string \<Rightarrow> bool" where
  "is_ascii s = list_all (\<lambda>c. (of_char c :: nat) < 128) s"

definition word_pattern :: "string \<Rightarrow> bool" where
  "word_pattern s = (s \<noteq> [] \<and> list_all (\<lambda>c. ascii_alnum c \<or> c = CHR ''_'') s)"

text \<open>The parameters of the successful run, with a core count and \<^verbatim>\<open>plot_genes\<close> set.\<close>

definition plot_params :: params where
  "plot_params = demo_params(''n_cores'' \<mapsto> PInt 4, ''plot_genes'' \<mapsto> PBool False)"

text \<open>
  The output directory holds a dangling link \<^verbatim>\<open>s1_c\<close> after the two results; and a
  world in which no path can be examined.
\<close>

definition dangling_world :: world where
  "dangling_world =
     demo_world\<lparr>scandir := (\<lambda>d. Inr [(''s1_a'', Inr 5), (''s1_b'', Inr 5),
        (''s1_c'', Inl (OSError ''[Errno 2] No such file or directory''))])\<rparr>"

definition unreachable_world :: world where
  "unreachable_world =
     demo_world\<lparr>path_exists := (\<lambda>p. Inl (OSError ''[Errno 13] Permission denied''))\<rparr>"

text \<open>The predictions file parses and has no \<^verbatim>\<open>copykat.pred\<close> column.\<close>

definition unlabelled_table :: dataframe where
  "unlabelled_table =
     \<lparr>n_rows = 2, columns = [(''cell.names'', [CText ''cell1'', CText ''cell2''])]\<rparr>"

definition unlabelled_world :: world where
  "unlabelled_world = demo_world\<lparr>read_csv := (\<lambda>p. Inr unlabelled_table)\<rparr>"

section \<open>The result of a run\<close>

lemma failure_invariant: "bundle_invariant (failure msg t)"
  by (simp add: bundle_invariant_def failure_def)

lemma build_r_command_total:
  "first_missing ps required_params = None \<Longrightarrow> \<exists>command. build_r_command sp ps = Inr command"
  by (auto simp: required_params_def build_r_command_def split: if_splits option.splits)

lemma run_try_invariant: "run_try w ps command = Inr r \<Longrightarrow> bundle_invariant r"
  by (auto simp: run_try_def Let_def failure_def bundle_invariant_def
      split: sum.splits option.splits pyval.splits if_splits)

text \<open>
  C1. For every environment and every parameter dictionary, \<^verbatim>\<open>run_copykat_analysis\<close>
  returns a result dictionary (no exception leaves it), and the result satisfies the
  invariant: a success has an output directory and no error, a failure has an error
  string.
\<close>

theorem run_copykat_analysis_invariant:
  "\<exists>r calls. run_copykat_analysis w ps = (Inr r, calls) \<and> bundle_invariant r"
proof (cases "first_missing ps required_params")
  case (Some k)
  then show ?thesis by (simp add: run_copykat_analysis_def failure_invariant)
next
  case None
  then obtain command where c: "build_r_command r_script_path ps = Inr command"
    using build_r_command_total by blast
  show ?thesis
  proof (cases "run_try w ps command")
    case (Inr r)
    then show ?thesis using None c run_try_invariant[OF Inr]
      by (simp add: run_copykat_analysis_def)
  next
    case (Inl e)
    then show ?thesis using None c
      by (cases e) (simp_all add: run_copykat_analysis_def failure_invariant)
  qed
qed

text \<open>The successful run of the concrete environment, evaluated.\<close>

lemma demo_run:
  "run_copykat_analysis demo_world demo_params =
     (Inr \<lparr>success = True, error = None, output_dir = Some ''out/s1_a'',
           files = [(''predictions'', ''out/s1_a/s1_copykat_prediction.txt''),
                    (''cna_results'', ''out/s1_a/s1_copykat_CNA_results.txt''),
                    (''heatmap'', ''out/s1_a/s1_copykat_heatmap.jpeg''),
                    (''log'', ''out/s1_a/logs/analysis.log''),
                    (''report'', ''out/s1_a/s1_report.html'')],
           summary = Some \<lparr>n_cells = 3, n_aneuploid = 2, n_diploid = 1, n_not_defined = 0,
                            aneuploid_fraction = 2 / 3, mean_confidence = None\<rparr>,
           runtime_minutes = 2, timestamp = Some ''2024-01-15T10:00:00''\<rparr>,
      [[PStr ''Rscript'', PStr ''backend/r_scripts/copykat_analysis.R'',
        PStr ''--input'', PStr ''data/matrix.txt'', PStr ''--output'', PStr ''out'',
        PStr ''--name'', PStr ''s1'', PStr ''--genome'', PStr ''hg20'']])"
  by (simp add: run_copykat_analysis_def required_params_def demo_params_def
      build_r_command_def optional_arguments_def opt_str_def opt_raw_def r_script_path_def
      run_try_def py_subprocess_run_def demo_world_def find_output_directory_def glob_dir_def
      py_max_def locate_output_files_def extract_summary_statistics_def summary_try_def
      count_predictions_def column_def value_count_def truediv_def zero_summary_def
      demo_table_def Let_def)

theorem run_copykat_analysis_invariant_witness:
  "\<exists>r calls. run_copykat_analysis demo_world demo_params = (Inr r, calls)
      \<and> success r \<and> output_dir r = Some ''out/s1_a'' \<and> error r = None"
  using run_copykat_analysis_invariant [of demo_world demo_params]
  by (auto simp: demo_run bundle_invariant_def)

text \<open>
  C10. When one of the four required keys is missing, the result is the failure that
  names the first missing key in the order \<^verbatim>\<open>input_file\<close>, \<^verbatim>\<open>sample_name\<close>,
  \<^verbatim>\<open>output_dir\<close>, \<^verbatim>\<open>genome\<close>, with runtime 0 and empty \<^verbatim>\<open>files\<close> and
  \<^verbatim>\<open>summary\<close>, and \<^verbatim>\<open>subprocess.run\<close> is not called.
\<close>

theorem run_copykat_analysis_missing_key:
  assumes "ps ''input_file'' = None \<or> ps ''sample_name'' = None
           \<or> ps ''output_dir'' = None \<or> ps ''genome'' = None"
  shows "run_copykat_analysis w ps =
           (Inr \<lparr>success = False,
                 error = Some (''Missing required parameter: '' @
                    (if ps ''input_file'' = None then ''input_file''
                     else if ps ''sample_name'' = None then ''sample_name''
                     else if ps ''output_dir'' = None then ''output_dir''
                     else ''genome'')),
                 output_dir = None, files = [], summary = None,
                 runtime_minutes = 0, timestamp = None\<rparr>, [])"
  using assms by (auto simp: run_copykat_analysis_def required_params_def failure_def)

theorem run_copykat_analysis_missing_key_witness:
  "run_copykat_analysis demo_world [''input_file'' \<mapsto> PStr ''data/matrix.txt'', ''genome'' \<mapsto> PStr ''hg20''] =
     (Inr \<lparr>success = False, error = Some ''Missing required parameter: sample_name'',
           output_dir = None, files = [], summary = None, runtime_minutes = 0,
           timestamp = None\<rparr>, [])"
  using run_copykat_analysis_missing_key
    [of "[''input_file'' \<mapsto> PStr ''data/matrix.txt'', ''genome'' \<mapsto> PStr ''hg20'']" demo_world]
  by simp

section \<open>The locator\<close>

lemma glob_match_star: "glob_match ''*'' s"
  by (induction s) auto

lemma glob_match_prefix:
  "glob_free name \<Longrightarrow> glob_match (name @ ''_*'') s \<longleftrightarrow> prefix (name @ ''_'') s"
proof (induction name arbitrary: s)
  case Nil
  then show ?case by (cases s) (auto simp: glob_match_star)
next
  case (Cons c name)
  then show ?case by (cases s) (auto simp: glob_free_def)
qed

text \<open>
  When every key is computed, the loop returns the first element of greatest key: the
  elements before it have a smaller key, the elements after it none greater.
\<close>

lemma max_by_key_first:
  assumes "\<forall>x\<in>set xs. k x = Inr (f x)"
  shows "\<exists>r pre post. max_by_key k best (f best) xs = Inr r
     \<and> best # xs = pre @ r # post
     \<and> (\<forall>x\<in>set pre. f x < f r)
     \<and> (\<forall>x\<in>set post. f x \<le> f r)"
  using assms
proof (induction xs arbitrary: best)
  case Nil
  have "max_by_key k best (f best) [] = Inr best \<and> best # [] = [] @ best # []
     \<and> (\<forall>x\<in>set ([]::'a list). f x < f best) \<and> (\<forall>x\<in>set ([]::'a list). f x \<le> f best)"
    by simp
  then show ?case by blast
next
  case (Cons x xs)
  have kx: "k x = Inr (f x)" using Cons.prems by simp
  have rest: "\<forall>y\<in>set xs. k y = Inr (f y)" using Cons.prems by simp
  show ?case
  proof (cases "f best < f x")
    case True
    from Cons.IH[OF rest, of x] obtain r pre post where
      run: "max_by_key k x (f x) xs = Inr r" and
      eq: "x # xs = pre @ r # post" and
      lt: "\<forall>y\<in>set pre. f y < f r" and le: "\<forall>y\<in>set post. f y \<le> f r"
      by blast
    have xr: "f x \<le> f r"
    proof (cases pre)
      case Nil
      with eq have "x = r" by simp
      then show ?thesis by simp
    next
      case (Cons p ps)
      with eq have "x \<in> set pre" by simp
      with lt show ?thesis by (simp add: less_imp_le)
    qed
    have "max_by_key k best (f best) (x # xs) = Inr r" using kx True run by simp
    moreover have "best # x # xs = (best # pre) @ r # post" using eq by simp
    moreover have "\<forall>y\<in>set (best # pre). f y < f r" using lt xr True by auto
    ultimately show ?thesis using le by blast
  next
    case False
    from Cons.IH[OF rest, of best] obtain r pre post where
      run: "max_by_key k best (f best) xs = Inr r" and
      eq: "best # xs = pre @ r # post" and
      lt: "\<forall>y\<in>set pre. f y < f r" and le: "\<forall>y\<in>set post. f y \<le> f r"
      by blast
    have res: "max_by_key k best (f best) (x # xs) = Inr r" using kx False run by simp
    show ?thesis
    proof (cases pre)
      case Nil
      then have br: "best = r" and xs: "xs = post" using eq by simp_all
      have "best # x # xs = [] @ r # (x # post)" using br xs by simp
      moreover have "\<forall>y\<in>set (x # post). f y \<le> f r" using le False br by auto
      moreover have "\<forall>y\<in>set ([]::'a list). f y < f r" by simp
      ultimately show ?thesis using res by blast
    next
      case (Cons p ps)
      then have bp: "p = best" and xs: "xs = ps @ r # post" using eq by simp_all
      have bl: "f best < f r" using lt Cons bp by simp
      have "best # x # xs = (best # x # ps) @ r # post" using xs by simp
      moreover have "\<forall>y\<in>set (best # x # ps). f y < f r" using lt Cons bl False by auto
      ultimately show ?thesis using res le by blast
    qed
  qed
qed

text \<open>The first key that raises ends the loop with its exception.\<close>

lemma max_by_key_raises:
  "\<forall>x\<in>set ok. \<exists>t. k x = Inr t \<Longrightarrow> k bad = Inl e \<Longrightarrow>
   max_by_key k best bk (ok @ bad # rest) = Inl e"
proof (induction ok arbitrary: best bk)
  case Nil
  then show ?case by simp
next
  case (Cons x ok)
  then obtain t where "k x = Inr t" by auto
  then show ?case using Cons by simp
qed

lemma py_max_first:
  assumes "xs \<noteq> []" and "\<forall>x\<in>set xs. k x = Inr (f x)"
  shows "\<exists>r pre post. py_max k xs = Inr r \<and> xs = pre @ r # post
     \<and> (\<forall>x\<in>set pre. f x < f r) \<and> (\<forall>x\<in>set post. f x \<le> f r)"
proof -
  from assms(1) obtain x rest where xs: "xs = x # rest" by (cases xs) auto
  have "py_max k xs = max_by_key k x (f x) rest" using xs assms(2) by (simp add: py_max_def)
  moreover have "\<forall>y\<in>set rest. k y = Inr (f y)" using xs assms(2) by simp
  ultimately show ?thesis using max_by_key_first[of rest k f x] xs by simp
qed

lemma py_max_raises:
  assumes "\<forall>x\<in>set ok. \<exists>t. k x = Inr t" and "k bad = Inl e"
  shows "py_max k (ok @ bad # rest) = Inl e"
proof (cases ok)
  case Nil
  then show ?thesis using assms(2) by (simp add: py_max_def)
next
  case (Cons x ok')
  then obtain t where t: "k x = Inr t" using assms(1) by auto
  have "\<forall>y\<in>set ok'. \<exists>t. k y = Inr t" using Cons assms(1) by simp
  from max_by_key_raises[OF this assms(2)] show ?thesis using Cons t by (simp add: py_max_def)
qed

lemma find_latest_result_eq:
  "find_latest_result w sample_name results_dir =
     find_output_directory w (get_absolute_path w results_dir) sample_name"
  by (simp add: find_latest_result_def find_output_directory_def Let_def
      split: sum.splits)

text \<open>The locator on a base directory that exists and can be enumerated.\<close>

lemma find_output_directory_listing:
  assumes "glob_free sample_name" and "path_exists w base_dir = Inr True"
    and "scandir w base_dir = Inr entries"
  shows "find_output_directory w base_dir sample_name =
     (if filter (\<lambda>x. prefix (sample_name @ ''_'') (fst x)) entries \<noteq> []
      then (case py_max snd (filter (\<lambda>x. prefix (sample_name @ ''_'') (fst x)) entries) of
              Inl e \<Rightarrow> Inl e
            | Inr p \<Rightarrow> Inr (Some (joinpath w base_dir (fst p))))
      else Inr None)"
  using assms by (simp add: find_output_directory_def glob_dir_def glob_match_prefix)

text \<open>
  C3, as the code has it. For a sample name without glob characters: an exception of
  \<^verbatim>\<open>exists()\<close> on the base directory, of its enumeration, or of \<^verbatim>\<open>stat()\<close> on an entry
  whose name starts with the sample name and an underscore (the first such exception in
  the order of enumeration) leaves \<^verbatim>\<open>find_output_directory\<close>. Otherwise it returns
  \<^verbatim>\<open>None\<close> exactly when the base directory does not exist or has no such entry; and when
  there are such entries it returns the path of one whose modification time is the
  greatest, among several with the greatest time the first in the order of enumeration:
  every matching entry before it is strictly older, every one after it is not newer.
\<close>

theorem find_output_directory_most_recent_first:
  assumes "glob_free sample_name"
  shows "(\<forall>e. path_exists w base_dir = Inl e \<longrightarrow>
            find_output_directory w base_dir sample_name = Inl e)
       \<and> (\<forall>e. path_exists w base_dir = Inr True \<and> scandir w base_dir = Inl e \<longrightarrow>
            find_output_directory w base_dir sample_name = Inl e)
       \<and> (\<forall>entries ok n e rest.
            path_exists w base_dir = Inr True \<and> scandir w base_dir = Inr entries
            \<and> filter (\<lambda>x. prefix (sample_name @ ''_'') (fst x)) entries = ok @ (n, Inl e) # rest
            \<and> (\<forall>x\<in>set ok. \<exists>t. snd x = Inr t) \<longrightarrow>
            find_output_directory w base_dir sample_name = Inl e)
       \<and> (find_output_directory w base_dir sample_name = Inr None \<longleftrightarrow>
            path_exists w base_dir = Inr False
            \<or> (path_exists w base_dir = Inr True
                \<and> (\<exists>entries. scandir w base_dir = Inr entries
                      \<and> (\<forall>x\<in>set entries. \<not> prefix (sample_name @ ''_'') (fst x)))))
       \<and> (\<forall>entries.
            path_exists w base_dir = Inr True \<and> scandir w base_dir = Inr entries
            \<and> filter (\<lambda>x. prefix (sample_name @ ''_'') (fst x)) entries \<noteq> []
            \<and> (\<forall>x\<in>set (filter (\<lambda>x. prefix (sample_name @ ''_'') (fst x)) entries).
                  \<exists>t. snd x = Inr t) \<longrightarrow>
            (\<exists>pre n t post.
               filter (\<lambda>x. prefix (sample_name @ ''_'') (fst x)) entries
                 = pre @ (n, Inr t) # post
               \<and> find_output_directory w base_dir sample_name
                   = Inr (Some (joinpath w base_dir n))
               \<and> (\<forall>x\<in>set pre. \<exists>u. snd x = Inr u \<and> u < t)
               \<and> (\<forall>x\<in>set post. \<exists>u. snd x = Inr u \<and> u \<le> t)))"
proof -
  let ?R = "find_output_directory w base_dir sample_name"
  let ?M = "\<lambda>entries. filter (\<lambda>x. prefix (sample_name @ ''_'') (fst x)) entries"
  have c1: "\<forall>e. path_exists w base_dir = Inl e \<longrightarrow> ?R = Inl e"
    by (simp add: find_output_directory_def)
  have c2: "\<forall>e. path_exists w base_dir = Inr True \<and> scandir w base_dir = Inl e \<longrightarrow> ?R = Inl e"
    by (simp add: find_output_directory_def glob_dir_def)
  have c3: "\<forall>entries ok n e rest.
            path_exists w base_dir = Inr True \<and> scandir w base_dir = Inr entries
            \<and> ?M entries = ok @ (n, Inl e) # rest
            \<and> (\<forall>x\<in>set ok. \<exists>t. snd x = Inr t) \<longrightarrow> ?R = Inl e"
  proof (intro allI impI)
    fix entries ok n e rest
    assume a: "path_exists w base_dir = Inr True \<and> scandir w base_dir = Inr entries
            \<and> ?M entries = ok @ (n, Inl e) # rest
            \<and> (\<forall>x\<in>set ok. \<exists>t. snd x = Inr t)"
    then have "py_max snd (?M entries) = Inl e"
      using py_max_raises[of ok snd "(n, Inl e)" e rest] by simp
    moreover have "?M entries \<noteq> []" using a by simp
    ultimately show "?R = Inl e"
      using find_output_directory_listing[OF assms, of w base_dir entries] a by simp
  qed
  have c5: "\<forall>entries.
            path_exists w base_dir = Inr True \<and> scandir w base_dir = Inr entries
            \<and> ?M entries \<noteq> [] \<and> (\<forall>x\<in>set (?M entries). \<exists>t. snd x = Inr t) \<longrightarrow>
            (\<exists>pre n t post. ?M entries = pre @ (n, Inr t) # post
               \<and> ?R = Inr (Some (joinpath w base_dir n))
               \<and> (\<forall>x\<in>set pre. \<exists>u. snd x = Inr u \<and> u < t)
               \<and> (\<forall>x\<in>set post. \<exists>u. snd x = Inr u \<and> u \<le> t))"
  proof (intro allI impI)
    fix entries
    assume a: "path_exists w base_dir = Inr True \<and> scandir w base_dir = Inr entries
            \<and> ?M entries \<noteq> [] \<and> (\<forall>x\<in>set (?M entries). \<exists>t. snd x = Inr t)"
    define f :: "string \<times> (py_exn + int) \<Rightarrow> int"
      where "f x = (case snd x of Inr t \<Rightarrow> t | Inl e \<Rightarrow> 0)" for x
    have keys: "\<forall>x\<in>set (?M entries). snd x = Inr (f x)"
    proof
      fix x assume "x \<in> set (?M entries)"
      with a obtain t where "snd x = Inr t" by blast
      then show "snd x = Inr (f x)" by (simp add: f_def)
    qed
    from py_max_first[of "?M entries" snd f] a keys obtain r pre post where
      m: "py_max snd (?M entries) = Inr r" and
      eq: "?M entries = pre @ r # post" and
      lt: "\<forall>x\<in>set pre. f x < f r" and le: "\<forall>x\<in>set post. f x \<le> f r"
      by blast
    have rin: "r \<in> set (?M entries)" using eq by simp
    have r: "r = (fst r, Inr (f r))" using keys rin by (metis prod.collapse)
    have res: "?R = Inr (Some (joinpath w base_dir (fst r)))"
      using find_output_directory_listing[OF assms, of w base_dir entries] a m by simp
    have pre: "\<forall>x\<in>set pre. \<exists>u. snd x = Inr u \<and> u < f r"
    proof
      fix x assume x: "x \<in> set pre"
      then have "x \<in> set (?M entries)" using eq by simp
      with keys have "snd x = Inr (f x)" by blast
      with lt x show "\<exists>u. snd x = Inr u \<and> u < f r" by blast
    qed
    have post: "\<forall>x\<in>set post. \<exists>u. snd x = Inr u \<and> u \<le> f r"
    proof
      fix x assume x: "x \<in> set post"
      then have "x \<in> set (?M entries)" using eq by simp
      with keys have "snd x = Inr (f x)" by blast
      with le x show "\<exists>u. snd x = Inr u \<and> u \<le> f r" by blast
    qed
    have "?M entries = pre @ (fst r, Inr (f r)) # post" using eq r by simp
    then show "\<exists>pre n t post. ?M entries = pre @ (n, Inr t) # post
               \<and> ?R = Inr (Some (joinpath w base_dir n))
               \<and> (\<forall>x\<in>set pre. \<exists>u. snd x = Inr u \<and> u < t)
               \<and> (\<forall>x\<in>set post. \<exists>u. snd x = Inr u \<and> u \<le> t)"
      using res pre post by blast
  qed
  have c4: "?R = Inr None \<longleftrightarrow>
            path_exists w base_dir = Inr False
            \<or> (path_exists w base_dir = Inr True
                \<and> (\<exists>entries. scandir w base_dir = Inr entries
                      \<and> (\<forall>x\<in>set entries. \<not> prefix (sample_name @ ''_'') (fst x))))"
  proof (cases "path_exists w base_dir")
    case (Inl e)
    then show ?thesis by (simp add: find_output_directory_def)
  next
    case (Inr ex)
    show ?thesis
    proof (cases ex)
      case False
      then show ?thesis using Inr by (simp add: find_output_directory_def)
    next
      case True
      show ?thesis
      proof (cases "scandir w base_dir")
        case (Inl e)
        then show ?thesis using Inr True by (simp add: find_output_directory_def glob_dir_def)
      next
        case es: (Inr entries)
        have ex: "path_exists w base_dir = Inr True" using Inr True by simp
        have val: "?R =
           (if ?M entries \<noteq> []
            then (case py_max snd (?M entries) of
                    Inl e \<Rightarrow> Inl e
                  | Inr p \<Rightarrow> Inr (Some (joinpath w base_dir (fst p))))
            else Inr None)"
          by (rule find_output_directory_listing[OF assms ex es])
        have "?R = Inr None \<longleftrightarrow> ?M entries = []"
          using val by (auto split: sum.splits)
        then show ?thesis using ex es by (simp add: filter_empty_conv)
      qed
    qed
  qed
  show ?thesis using c1 c2 c3 c4 c5 by blast
qed

lemma demo_locate: "find_output_directory demo_world ''out'' ''s1'' = Inr (Some ''out/s1_a'')"
  by (simp add: find_output_directory_def demo_world_def glob_dir_def py_max_def)

theorem find_output_directory_most_recent_first_witness:
  "glob_free ''s1''
   \<and> path_exists demo_world ''out'' = Inr True
   \<and> scandir demo_world ''out'' = Inr [(''s1_a'', Inr 5), (''s1_b'', Inr 5), (''s2_x'', Inr 9)]
   \<and> (\<exists>pre n t post.
         [(''s1_a'', Inr 5), (''s1_b'', Inr 5)] = pre @ (n, Inr t) # post
         \<and> Inr (Some ''out/s1_a'') = Inr (Some (joinpath demo_world ''out'' n) :: string option)
         \<and> (\<forall>x\<in>set pre. \<exists>u. snd x = (Inr u :: py_exn + int) \<and> u < t)
         \<and> (\<forall>x\<in>set post. \<exists>u. snd x = (Inr u :: py_exn + int) \<and> u \<le> t))
   \<and> find_output_directory dangling_world ''out'' ''s1''
        = Inl (OSError ''[Errno 2] No such file or directory'')
   \<and> find_output_directory unreachable_world ''out'' ''s1''
        = Inl (OSError ''[Errno 13] Permission denied'')"
proof -
  have g: "glob_free ''s1''" by (simp add: glob_free_def)
  have e: "path_exists demo_world ''out'' = Inr True" by (simp add: demo_world_def)
  have s: "scandir demo_world ''out'' =
             Inr [(''s1_a'', Inr 5), (''s1_b'', Inr 5), (''s2_x'', Inr 9)]"
    by (simp add: demo_world_def)
  have m: "filter (\<lambda>x. prefix (''s1'' @ ''_'') (fst x))
             [(''s1_a'', Inr 5), (''s1_b'', Inr 5), (''s2_x'', Inr 9 :: py_exn + int)]
           = [(''s1_a'', Inr 5), (''s1_b'', Inr 5)]" by simp
  from find_output_directory_most_recent_first[OF g, of demo_world "''out''"] e s m
  have "\<exists>pre n t post.
         [(''s1_a'', Inr 5), (''s1_b'', Inr 5)] = pre @ (n, Inr t) # post
         \<and> find_output_directory demo_world ''out'' ''s1''
              = Inr (Some (joinpath demo_world ''out'' n))
         \<and> (\<forall>x\<in>set pre. \<exists>u. snd x = (Inr u :: py_exn + int) \<and> u < t)
         \<and> (\<forall>x\<in>set post. \<exists>u. snd x = (Inr u :: py_exn + int) \<and> u \<le> t)"
    by auto
  then have 1: "\<exists>pre n t post.
         [(''s1_a'', Inr 5), (''s1_b'', Inr 5)] = pre @ (n, Inr t) # post
         \<and> Inr (Some ''out/s1_a'') = Inr (Some (joinpath demo_world ''out'' n) :: string option)
         \<and> (\<forall>x\<in>set pre. \<exists>u. snd x = (Inr u :: py_exn + int) \<and> u < t)
         \<and> (\<forall>x\<in>set post. \<exists>u. snd x = (Inr u :: py_exn + int) \<and> u \<le> t)"
    by (simp add: demo_locate)
  have de: "path_exists dangling_world ''out'' = Inr True"
    by (simp add: dangling_world_def demo_world_def)
  have ds: "scandir dangling_world ''out'' = Inr [(''s1_a'', Inr 5), (''s1_b'', Inr 5),
        (''s1_c'', Inl (OSError ''[Errno 2] No such file or directory''))]"
    by (simp add: dangling_world_def)
  have dm: "filter (\<lambda>x. prefix (''s1'' @ ''_'') (fst x))
             [(''s1_a'', Inr 5), (''s1_b'', Inr 5),
              (''s1_c'', Inl (OSError ''[Errno 2] No such file or directory'') :: py_exn + int)]
           = [(''s1_a'', Inr 5), (''s1_b'', Inr 5)]
             @ (''s1_c'', Inl (OSError ''[Errno 2] No such file or directory'')) # []" by simp
  have dk: "\<forall>x\<in>set [(''s1_a'', Inr 5), (''s1_b'', Inr 5 :: py_exn + int)]. \<exists>t. snd x = Inr t"
    by simp
  from find_output_directory_most_recent_first[OF g, of dangling_world "''out''"] de ds dm dk
  have 2: "find_output_directory dangling_world ''out'' ''s1''
        = Inl (OSError ''[Errno 2] No such file or directory'')"
    by blast
  have ue: "path_exists unreachable_world ''out'' = Inl (OSError ''[Errno 13] Permission denied'')"
    by (simp add: unreachable_world_def)
  from find_output_directory_most_recent_first[OF g, of unreachable_world "''out''"] ue
  have 3: "find_output_directory unreachable_world ''out'' ''s1''
        = Inl (OSError ''[Errno 13] Permission denied'')"
    by blast
  show ?thesis using g e s 1 2 3 by blast
qed

text \<open>
  C3 as it is written fails on the tie: with two results of the same modification time
  enumerated as \<^verbatim>\<open>s1_a\<close>, \<^verbatim>\<open>s1_b\<close>, the locator returns \<^verbatim>\<open>s1_a\<close>, which is
  not the lexicographically greatest name.
\<close>

theorem find_output_directory_tie_counterexample:
  "scandir demo_world ''out'' = Inr [(''s1_a'', Inr 5), (''s1_b'', Inr 5), (''s2_x'', Inr 9)]
   \<and> find_output_directory demo_world ''out'' ''s1''
       = Inr (Some (joinpath demo_world ''out'' ''s1_a''))
   \<and> name_less ''s1_a'' ''s1_b''"
  by (simp add: find_output_directory_def demo_world_def glob_dir_def py_max_def name_less_def)

text \<open>
  A sample name with a glob character matches more than its prefix: the pattern built
  from \<^verbatim>\<open>s?\<close> matches the entry \<^verbatim>\<open>s1_a\<close>, which does not start with \<^verbatim>\<open>s?_\<close>.
\<close>

lemma glob_match_metacharacter:
  "glob_match (''s?'' @ ''_*'') ''s1_a'' \<and> \<not> prefix (''s?'' @ ''_'') ''s1_a''"
  by simp

section \<open>The progress monitor\<close>





text \<open>The events of the concrete process, evaluated.\<close>

lemma demo_monitor:
  "monitor_analysis_progress demo_process =
     Some [\<lparr>progress = 1 / 10, message = ''Loading and validating data...'',
            stage = ''Stage 1/6'', complete = False, success_ev = None, error_code = None\<rparr>,
           \<lparr>progress = 2 / 10, message = ''Filtering cells'',
            stage = ''Stage 2/6'', complete = False, success_ev = None, error_code = None\<rparr>,
           \<lparr>progress = 0, message = ''Analysis failed with code 3'',
            stage = ''Error'', complete = True, success_ev = Some False, error_code = Some 3\<rparr>]"
  apply (simp add: monitor_analysis_progress_def)
  apply (subst monitor_loop.simps, simp add: demo_process_def stages_def)
  apply (subst monitor_loop.simps, simp add: demo_process_def stages_def)
  apply (subst monitor_loop.simps, simp add: demo_process_def stages_def)
  apply (simp add: stage_event_def final_event_def stages_def demo_process_def str_int_def digit_char_def)
  done


section \<open>Summaries\<close>

lemma count_predictions_no_exn: "snd (count_predictions df s) = None"
  by (simp add: count_predictions_def truediv_def Let_def split: option.splits)

lemma count_predictions_keeps:
  "n_cells (fst (count_predictions df s)) = n_cells s"
  "mean_confidence (fst (count_predictions df s)) = mean_confidence s"
  by (simp_all add: count_predictions_def truediv_def Let_def split: option.splits)

lemma count_predictions_fraction:
  assumes "n_aneuploid s = 0" "aneuploid_fraction s = 0"
  shows "aneuploid_fraction (fst (count_predictions df s)) =
           (if n_cells (fst (count_predictions df s)) > 0
            then of_nat (n_aneuploid (fst (count_predictions df s)))
                   / of_nat (n_cells (fst (count_predictions df s)))
            else 0)"
  using assms by (simp add: count_predictions_def truediv_def Let_def split: option.splits)

lemma numbers_map_CNum: "numbers (map CNum xs) = xs"
  by (induction xs) simp_all

lemma no_text_map_CNum: "\<not> list_ex is_text (map CNum xs)"
  by (induction xs) simp_all

lemma generate_summary_cases:
  "generate_summary df =
     (case column df ''copykat.confidence'' of
        None \<Rightarrow> Inr (fst (count_predictions df
             \<lparr>n_cells = n_rows df, n_aneuploid = 0, n_diploid = 0,
              n_not_defined = 0, aneuploid_fraction = 0, mean_confidence = Some (Fin 0)\<rparr>))
      | Some col \<Rightarrow>
          (case series_mean col of
             Inl e \<Rightarrow> Inl e
           | Inr m \<Rightarrow> Inr ((fst (count_predictions df
             \<lparr>n_cells = n_rows df, n_aneuploid = 0, n_diploid = 0,
              n_not_defined = 0, aneuploid_fraction = 0, mean_confidence = Some (Fin 0)\<rparr>))
                \<lparr>mean_confidence := Some m\<rparr>)))"
proof -
  obtain s x where c: "count_predictions df
             \<lparr>n_cells = n_rows df, n_aneuploid = 0, n_diploid = 0,
              n_not_defined = 0, aneuploid_fraction = 0, mean_confidence = Some (Fin 0)\<rparr> = (s, x)"
    by (cases "count_predictions df
             \<lparr>n_cells = n_rows df, n_aneuploid = 0, n_diploid = 0,
              n_not_defined = 0, aneuploid_fraction = 0, mean_confidence = Some (Fin 0)\<rparr>")
  moreover have "x = None" using count_predictions_no_exn[of df] c by (metis snd_conv)
  ultimately show ?thesis by (simp add: generate_summary_def split: option.splits sum.splits)
qed

text \<open>The only exception that leaves the function is that of \<^verbatim>\<open>exists()\<close>.\<close>

lemma extract_summary_statistics_exn:
  "extract_summary_statistics w fs = Inl e \<Longrightarrow>
   \<exists>p. map_of fs ''predictions'' = Some p \<and> p \<noteq> [] \<and> path_exists w p = Inl e"
  by (auto simp: extract_summary_statistics_def split: option.splits if_splits sum.splits)

lemma extract_summary_statistics_answers:
  assumes "\<forall>p. map_of fs ''predictions'' = Some p \<and> p \<noteq> [] \<longrightarrow> (\<exists>b. path_exists w p = Inr b)"
  shows "\<exists>s. extract_summary_statistics w fs = Inr s"
proof (cases "extract_summary_statistics w fs")
  case (Inl e)
  from extract_summary_statistics_exn[OF Inl] assms show ?thesis by auto
next
  case (Inr s)
  then show ?thesis by blast
qed

lemma extract_summary_statistics_no_mean:
  "extract_summary_statistics w fs = Inr s \<Longrightarrow> mean_confidence s = None"
  by (auto simp: extract_summary_statistics_def summary_try_def zero_summary_def
      count_predictions_keeps split: option.splits if_splits sum.splits)

text \<open>
  C5, as the code has it. \<^verbatim>\<open>generate_summary\<close> always has a \<^verbatim>\<open>mean_confidence\<close>:
  0.0 when the table has no confidence column; with a numeric confidence column, the
  arithmetic mean of the values present in it (NaN when there is none), which is the mean
  over all rows when no value is missing. The summary of
  \<^verbatim>\<open>extract_summary_statistics\<close> never has the field.
\<close>

theorem generate_summary_mean_confidence:
  "(column df ''copykat.confidence'' = None \<longrightarrow>
      (\<exists>s. generate_summary df = Inr s \<and> mean_confidence s = Some (Fin 0)))
   \<and> (\<forall>col. column df ''copykat.confidence'' = Some col \<and> \<not> list_ex is_text col \<longrightarrow>
      (\<exists>s. generate_summary df = Inr s
          \<and> mean_confidence s =
              Some (if numbers col = [] then NaN
                    else Fin (sum_list (numbers col) / of_nat (length (numbers col))))))
   \<and> (\<forall>xs. xs \<noteq> [] \<and> column df ''copykat.confidence'' = Some (map CNum xs) \<longrightarrow>
      (\<exists>s. generate_summary df = Inr s
          \<and> mean_confidence s = Some (Fin (sum_list xs / of_nat (length xs)))))
   \<and> (\<forall>s. extract_summary_statistics w fs = Inr s \<longrightarrow> mean_confidence s = None)"
proof (intro conjI allI impI)
  assume "column df ''copykat.confidence'' = None"
  then show "\<exists>s. generate_summary df = Inr s \<and> mean_confidence s = Some (Fin 0)"
    by (simp add: generate_summary_cases count_predictions_keeps)
next
  fix col
  assume "column df ''copykat.confidence'' = Some col \<and> \<not> list_ex is_text col"
  then show "\<exists>s. generate_summary df = Inr s
          \<and> mean_confidence s =
              Some (if numbers col = [] then NaN
                    else Fin (sum_list (numbers col) / of_nat (length (numbers col))))"
    by (simp add: generate_summary_cases series_mean_def Let_def)
next
  fix xs :: "rat list"
  assume "xs \<noteq> [] \<and> column df ''copykat.confidence'' = Some (map CNum xs)"
  then show "\<exists>s. generate_summary df = Inr s
          \<and> mean_confidence s = Some (Fin (sum_list xs / of_nat (length xs)))"
    by (simp add: generate_summary_cases series_mean_def Let_def numbers_map_CNum
        no_text_map_CNum)
next
  fix s assume "extract_summary_statistics w fs = Inr s"
  then show "mean_confidence s = None" by (rule extract_summary_statistics_no_mean)
qed

text \<open>The summary of the three-cell table, evaluated.\<close>

lemma demo_summary:
  "generate_summary demo_table =
     Inr \<lparr>n_cells = 3, n_aneuploid = 2, n_diploid = 1, n_not_defined = 0,
          aneuploid_fraction = 2 / 3, mean_confidence = Some (Fin (53 / 60))\<rparr>"
  by (simp add: generate_summary_def count_predictions_def column_def value_count_def
      truediv_def series_mean_def demo_table_def Let_def)

theorem generate_summary_mean_confidence_witness:
  "column unscored_table ''copykat.confidence'' = None
   \<and> (\<exists>s. generate_summary unscored_table = Inr s \<and> mean_confidence s = Some (Fin 0))
   \<and> column demo_table ''copykat.confidence'' = Some (map CNum [9 / 10, 8 / 10, 95 / 100])
   \<and> (\<exists>s. generate_summary demo_table = Inr s \<and> mean_confidence s = Some (Fin (53 / 60)))"
proof -
  have a: "column unscored_table ''copykat.confidence'' = None"
    by (simp add: column_def unscored_table_def)
  have b: "column demo_table ''copykat.confidence'' = Some (map CNum [9 / 10, 8 / 10, 95 / 100])"
    by (simp add: column_def demo_table_def)
  from generate_summary_mean_confidence[of unscored_table demo_world "[]"] a
  have 1: "\<exists>s. generate_summary unscored_table = Inr s \<and> mean_confidence s = Some (Fin 0)"
    by blast
  from generate_summary_mean_confidence[of demo_table demo_world "[]"] b
  have "\<exists>s. generate_summary demo_table = Inr s
          \<and> mean_confidence s = Some (Fin (sum_list [9 / 10, 8 / 10, 95 / 100] / of_nat (length [9 / 10, 8 / 10, 95 / 100 :: rat])))"
    by blast
  then have 2: "\<exists>s. generate_summary demo_table = Inr s \<and> mean_confidence s = Some (Fin (53 / 60))"
    by simp
  show ?thesis using a b 1 2 by blast
qed

text \<open>
  C5 as it is written fails where the column is absent: the summary of a table without a
  confidence column has \<^verbatim>\<open>mean_confidence\<close> present and equal to 0.0.
\<close>

theorem generate_summary_absent_confidence_counterexample:
  "column unscored_table ''copykat.confidence'' = None
   \<and> generate_summary unscored_table =
       Inr \<lparr>n_cells = 1, n_aneuploid = 0, n_diploid = 1, n_not_defined = 0,
            aneuploid_fraction = 0, mean_confidence = Some (Fin 0)\<rparr>"
  by (simp add: generate_summary_def count_predictions_def column_def value_count_def
      truediv_def unscored_table_def Let_def)

text \<open>
  C7. In both summary functions \<^verbatim>\<open>aneuploid_fraction\<close> is
  \<^verbatim>\<open>n_aneuploid / n_cells\<close> when \<^verbatim>\<open>n_cells > 0\<close> and 0 otherwise, and
  \<^verbatim>\<open>n_cells\<close> is the number of rows; no division by zero is raised, and the summary of
  a table without rows is produced, with \<^verbatim>\<open>n_cells = 0\<close> and
  \<^verbatim>\<open>aneuploid_fraction = 0\<close>. The only exception that can leave
  \<^verbatim>\<open>extract_summary_statistics\<close> is that of \<^verbatim>\<open>exists()\<close> on the predictions path,
  before any table is read; when that test answers, the summary is produced.
\<close>

theorem summary_fraction_guarded:
  "(\<forall>s. generate_summary df = Inr s \<longrightarrow>
       n_cells s = n_rows df
       \<and> aneuploid_fraction s =
           (if n_cells s > 0 then of_nat (n_aneuploid s) / of_nat (n_cells s) else 0))
   \<and> generate_summary df \<noteq> Inl ZeroDivisionError
   \<and> (n_rows df = 0 \<and> wf_dataframe df \<longrightarrow>
       (\<exists>s. generate_summary df = Inr s \<and> n_cells s = 0 \<and> aneuploid_fraction s = 0))
   \<and> (\<forall>s. extract_summary_statistics w fs = Inr s \<longrightarrow>
         aneuploid_fraction s =
             (if n_cells s > 0 then of_nat (n_aneuploid s) / of_nat (n_cells s) else 0)
         \<and> (\<forall>p t. map_of fs ''predictions'' = Some p \<and> p \<noteq> []
                   \<and> path_exists w p = Inr True
                   \<and> read_csv w p = Inr t \<longrightarrow> n_cells s = n_rows t))
   \<and> (\<forall>e. extract_summary_statistics w fs = Inl e \<longrightarrow>
         (\<exists>p. map_of fs ''predictions'' = Some p \<and> p \<noteq> [] \<and> path_exists w p = Inl e))
   \<and> ((\<forall>p. map_of fs ''predictions'' = Some p \<and> p \<noteq> [] \<longrightarrow>
            (\<exists>b. path_exists w p = Inr b)) \<longrightarrow>
       (\<exists>s. extract_summary_statistics w fs = Inr s
         \<and> aneuploid_fraction s =
             (if n_cells s > 0 then of_nat (n_aneuploid s) / of_nat (n_cells s) else 0)
         \<and> (\<forall>p t. map_of fs ''predictions'' = Some p \<and> p \<noteq> []
                   \<and> path_exists w p = Inr True
                   \<and> read_csv w p = Inr t \<longrightarrow> n_cells s = n_rows t)))"
proof -
  let ?s0 = "\<lparr>n_cells = n_rows df, n_aneuploid = 0, n_diploid = 0,
              n_not_defined = 0, aneuploid_fraction = 0, mean_confidence = Some (Fin 0)\<rparr>"
  let ?c = "fst (count_predictions df ?s0)"
  have cells: "n_cells ?c = n_rows df" by (simp add: count_predictions_keeps)
  have frac: "aneuploid_fraction ?c =
           (if n_cells ?c > 0 then of_nat (n_aneuploid ?c) / of_nat (n_cells ?c) else 0)"
    by (rule count_predictions_fraction) simp_all
  have g1: "\<forall>s. generate_summary df = Inr s \<longrightarrow>
       n_cells s = n_rows df
       \<and> aneuploid_fraction s =
           (if n_cells s > 0 then of_nat (n_aneuploid s) / of_nat (n_cells s) else 0)"
  proof (intro allI impI)
    fix s assume "generate_summary df = Inr s"
    then have "s = ?c \<or> (\<exists>m. s = ?c\<lparr>mean_confidence := Some m\<rparr>)"
      by (auto simp: generate_summary_cases split: option.splits sum.splits)
    then show "n_cells s = n_rows df
       \<and> aneuploid_fraction s =
           (if n_cells s > 0 then of_nat (n_aneuploid s) / of_nat (n_cells s) else 0)"
      using cells frac by auto
  qed
  have g2: "generate_summary df \<noteq> Inl ZeroDivisionError"
    by (auto simp: generate_summary_cases series_mean_def Let_def
        split: option.splits sum.splits if_splits)
  have g3: "n_rows df = 0 \<and> wf_dataframe df \<longrightarrow>
       (\<exists>s. generate_summary df = Inr s \<and> n_cells s = 0 \<and> aneuploid_fraction s = 0)"
  proof
    assume a: "n_rows df = 0 \<and> wf_dataframe df"
    have ok: "\<exists>s. generate_summary df = Inr s"
    proof (cases "column df ''copykat.confidence''")
      case None
      then show ?thesis by (simp add: generate_summary_cases)
    next
      case (Some col)
      then have "(''copykat.confidence'', col) \<in> set (columns df)"
        by (simp add: column_def map_of_SomeD)
      with a have "col = []" by (auto simp: wf_dataframe_def list_all_iff)
      with Some show ?thesis by (simp add: generate_summary_cases series_mean_def)
    qed
    then obtain s where s: "generate_summary df = Inr s" by blast
    with g1 a have "n_cells s = 0 \<and> aneuploid_fraction s = 0" by auto
    with s show "\<exists>s. generate_summary df = Inr s \<and> n_cells s = 0 \<and> aneuploid_fraction s = 0"
      by blast
  qed
  have zfrac: "aneuploid_fraction zero_summary =
      (if n_cells zero_summary > 0
       then of_nat (n_aneuploid zero_summary) / of_nat (n_cells zero_summary) else 0)"
    by (simp add: zero_summary_def)
  have tfrac: "\<And>p. aneuploid_fraction (fst (summary_try w p zero_summary)) =
      (if n_cells (fst (summary_try w p zero_summary)) > 0
       then of_nat (n_aneuploid (fst (summary_try w p zero_summary)))
              / of_nat (n_cells (fst (summary_try w p zero_summary))) else 0)"
  proof -
    fix p
    show "aneuploid_fraction (fst (summary_try w p zero_summary)) =
      (if n_cells (fst (summary_try w p zero_summary)) > 0
       then of_nat (n_aneuploid (fst (summary_try w p zero_summary)))
              / of_nat (n_cells (fst (summary_try w p zero_summary))) else 0)"
    proof (cases "read_csv w p")
      case (Inl e)
      then show ?thesis by (simp add: summary_try_def zero_summary_def)
    next
      case (Inr t)
      have "aneuploid_fraction (fst (count_predictions t (zero_summary\<lparr>n_cells := n_rows t\<rparr>))) =
        (if n_cells (fst (count_predictions t (zero_summary\<lparr>n_cells := n_rows t\<rparr>))) > 0
         then of_nat (n_aneuploid (fst (count_predictions t (zero_summary\<lparr>n_cells := n_rows t\<rparr>))))
              / of_nat (n_cells (fst (count_predictions t (zero_summary\<lparr>n_cells := n_rows t\<rparr>))))
         else 0)"
        by (rule count_predictions_fraction) (simp_all add: zero_summary_def)
      then show ?thesis using Inr by (simp add: summary_try_def)
    qed
  qed
  have tcells: "\<And>p t. read_csv w p = Inr t \<Longrightarrow>
      n_cells (fst (summary_try w p zero_summary)) = n_rows t"
    by (simp add: summary_try_def count_predictions_keeps)
  have g4: "\<forall>s. extract_summary_statistics w fs = Inr s \<longrightarrow>
         aneuploid_fraction s =
             (if n_cells s > 0 then of_nat (n_aneuploid s) / of_nat (n_cells s) else 0)
         \<and> (\<forall>p t. map_of fs ''predictions'' = Some p \<and> p \<noteq> []
                   \<and> path_exists w p = Inr True
                   \<and> read_csv w p = Inr t \<longrightarrow> n_cells s = n_rows t)"
  proof (intro allI impI)
    fix s assume r: "extract_summary_statistics w fs = Inr s"
    show "aneuploid_fraction s =
             (if n_cells s > 0 then of_nat (n_aneuploid s) / of_nat (n_cells s) else 0)
         \<and> (\<forall>p t. map_of fs ''predictions'' = Some p \<and> p \<noteq> []
                   \<and> path_exists w p = Inr True
                   \<and> read_csv w p = Inr t \<longrightarrow> n_cells s = n_rows t)"
    proof (cases "map_of fs ''predictions''")
      case None
      then have "s = zero_summary" using r by (simp add: extract_summary_statistics_def)
      then show ?thesis using zfrac None by simp
    next
      case (Some p)
      show ?thesis
      proof (cases "p \<noteq> [] \<and> path_exists w p = Inr True")
        case True
        then have "s = fst (summary_try w p zero_summary)"
          using Some r by (simp add: extract_summary_statistics_def)
        then show ?thesis using tfrac[of p] tcells[of p] Some by auto
      next
        case False
        then have "s = zero_summary"
          using Some r
          by (auto simp: extract_summary_statistics_def split: sum.splits if_splits)
        then show ?thesis using zfrac False Some by auto
      qed
    qed
  qed
  have g5: "\<forall>e. extract_summary_statistics w fs = Inl e \<longrightarrow>
         (\<exists>p. map_of fs ''predictions'' = Some p \<and> p \<noteq> [] \<and> path_exists w p = Inl e)"
    using extract_summary_statistics_exn by blast
  have g6: "(\<forall>p. map_of fs ''predictions'' = Some p \<and> p \<noteq> [] \<longrightarrow>
            (\<exists>b. path_exists w p = Inr b)) \<longrightarrow>
       (\<exists>s. extract_summary_statistics w fs = Inr s
         \<and> aneuploid_fraction s =
             (if n_cells s > 0 then of_nat (n_aneuploid s) / of_nat (n_cells s) else 0)
         \<and> (\<forall>p t. map_of fs ''predictions'' = Some p \<and> p \<noteq> []
                   \<and> path_exists w p = Inr True
                   \<and> read_csv w p = Inr t \<longrightarrow> n_cells s = n_rows t))"
  proof
    assume "\<forall>p. map_of fs ''predictions'' = Some p \<and> p \<noteq> [] \<longrightarrow>
            (\<exists>b. path_exists w p = Inr b)"
    from extract_summary_statistics_answers[OF this]
    obtain s where "extract_summary_statistics w fs = Inr s" by blast
    with g4 show "\<exists>s. extract_summary_statistics w fs = Inr s
         \<and> aneuploid_fraction s =
             (if n_cells s > 0 then of_nat (n_aneuploid s) / of_nat (n_cells s) else 0)
         \<and> (\<forall>p t. map_of fs ''predictions'' = Some p \<and> p \<noteq> []
                   \<and> path_exists w p = Inr True
                   \<and> read_csv w p = Inr t \<longrightarrow> n_cells s = n_rows t)" by blast
  qed
  show ?thesis using g1 g2 g3 g4 g5 g6 by blast
qed

theorem summary_fraction_guarded_witness:
  "n_rows empty_table = 0 \<and> wf_dataframe empty_table
   \<and> (\<exists>s. generate_summary empty_table = Inr s \<and> n_cells s = 0 \<and> aneuploid_fraction s = 0)
   \<and> generate_summary demo_table =
       Inr \<lparr>n_cells = 3, n_aneuploid = 2, n_diploid = 1, n_not_defined = 0,
            aneuploid_fraction = 2 / 3, mean_confidence = Some (Fin (53 / 60))\<rparr>"
proof -
  have a: "n_rows empty_table = 0 \<and> wf_dataframe empty_table"
    by (simp add: empty_table_def wf_dataframe_def)
  from summary_fraction_guarded[of empty_table demo_world "[]"] a
  have "\<exists>s. generate_summary empty_table = Inr s \<and> n_cells s = 0 \<and> aneuploid_fraction s = 0"
    by blast
  then show ?thesis using a demo_summary by simp
qed

section \<open>Sample-name validation\<close>

lemma latin1_not_ascii: "(of_char c :: nat) < 128 \<Longrightarrow> \<not> latin1_alnum c"
  by (auto simp: latin1_alnum_def Let_def)

lemma isalnum_remove_underscores:
  assumes "is_ascii name"
  shows "isalnum (remove_underscores name) \<longleftrightarrow>
           list_all (\<lambda>c. ascii_alnum c \<or> c = CHR ''_'') name \<and> (\<exists>c\<in>set name. c \<noteq> CHR ''_'')"
proof -
  have a: "\<forall>c\<in>set name. \<not> latin1_alnum c"
    using assms by (auto simp: is_ascii_def list_all_iff latin1_not_ascii)
  have "remove_underscores name \<noteq> [] \<longleftrightarrow> (\<exists>c\<in>set name. c \<noteq> CHR ''_'')"
    by (auto simp: remove_underscores_def filter_empty_conv)
  moreover have "list_all (\<lambda>c. ascii_alnum c \<or> latin1_alnum c) (remove_underscores name)
      \<longleftrightarrow> list_all (\<lambda>c. ascii_alnum c \<or> c = CHR ''_'') name"
    using a by (auto simp: remove_underscores_def list_all_iff)
  ultimately show ?thesis by (auto simp: isalnum_def)
qed

text \<open>
  C9, as the code has it. \<^verbatim>\<open>validate_sample_name\<close> accepts an ASCII string exactly
  when it is not empty, matches \<^verbatim>\<open>[A-Za-z0-9_]+\<close>, holds at least one letter or digit,
  and has at most 50 characters; a rejected string comes with an error message. The
  sample-name block of \<^verbatim>\<open>validate_parameters\<close> applies the same test without the
  limit on the length.
\<close>

theorem validate_sample_name_accepts:
  assumes "is_ascii name"
  shows "(fst (validate_sample_name name) \<longleftrightarrow>
            word_pattern name \<and> (\<exists>c\<in>set name. c \<noteq> CHR ''_'') \<and> length name \<le> 50)
       \<and> (\<not> fst (validate_sample_name name) \<longrightarrow> snd (validate_sample_name name) \<noteq> [])
       \<and> (sample_name_errors name = [] \<longleftrightarrow>
            word_pattern name \<and> (\<exists>c\<in>set name. c \<noteq> CHR ''_''))"
  using isalnum_remove_underscores[OF assms]
  by (auto simp: validate_sample_name_def sample_name_errors_def word_pattern_def)

theorem validate_sample_name_accepts_witness:
  "is_ascii ''sample_001'' \<and> fst (validate_sample_name ''sample_001'')
   \<and> is_ascii ''bad name'' \<and> \<not> fst (validate_sample_name ''bad name'')
   \<and> snd (validate_sample_name ''bad name'') \<noteq> []"
proof -
  have a: "is_ascii ''sample_001''" by (simp add: is_ascii_def)
  have b: "is_ascii ''bad name''" by (simp add: is_ascii_def)
  have p: "word_pattern ''sample_001''" by (simp add: word_pattern_def ascii_alnum_def)
  have q: "\<not> word_pattern ''bad name''" by (simp add: word_pattern_def ascii_alnum_def)
  from validate_sample_name_accepts[OF a] p
  have 1: "fst (validate_sample_name ''sample_001'')" by simp
  from validate_sample_name_accepts[OF b] q
  have 2: "\<not> fst (validate_sample_name ''bad name'') \<and> snd (validate_sample_name ''bad name'') \<noteq> []"
    by blast
  show ?thesis using a b 1 2 by blast
qed

text \<open>
  C9 as it is written fails on a name made of underscores only: it is not empty, matches
  the pattern and is short, and it is rejected, since nothing is left of it once the
  underscores are removed.
\<close>

theorem validate_sample_name_underscores_counterexample:
  "word_pattern ''___'' \<and> length ''___'' \<le> 50 \<and> \<not> fst (validate_sample_name ''___'')"
  by (simp add: word_pattern_def validate_sample_name_def isalnum_def remove_underscores_def)

text \<open>
  Beyond ASCII, \<^verbatim>\<open>str.isalnum\<close> also holds of letters such as U+00E9; and a name of
  51 letters passes \<^verbatim>\<open>validate_parameters\<close> while \<^verbatim>\<open>validate_sample_name\<close>
  rejects it.
\<close>

lemma validate_sample_name_latin1: "fst (validate_sample_name [CHR 0xE9])"
  by (simp add: validate_sample_name_def isalnum_def remove_underscores_def ascii_alnum_def
      latin1_alnum_def)

lemma validate_parameters_no_length_limit:
  "sample_name_errors (replicate 51 CHR ''a'') = []
   \<and> \<not> fst (validate_sample_name (replicate 51 CHR ''a''))"
  by (simp add: sample_name_errors_def validate_sample_name_def isalnum_def
      remove_underscores_def ascii_alnum_def list_all_iff)

section \<open>The command line\<close>

lemma build_r_command_ignores_plot_genes:
  "build_r_command sp (ps(''plot_genes'' := x)) = build_r_command sp ps"
  by (simp add: build_r_command_def optional_arguments_def opt_str_def opt_raw_def
      cong: option.case_cong)

lemma build_r_command_required:
  assumes "ps ''input_file'' = Some inp" "ps ''output_dir'' = Some out"
    "ps ''sample_name'' = Some nm" "ps ''genome'' = Some g"
  shows "build_r_command sp ps =
     Inr ([PStr ''Rscript'', PStr sp, PStr ''--input'', inp, PStr ''--output'', out,
           PStr ''--name'', nm, PStr ''--genome'', g] @ optional_arguments ps)"
  using assms by (simp add: build_r_command_def)

lemma optional_arguments_absent:
  assumes "ps ''ngene_chr'' = None" "ps ''win_size'' = None" "ps ''n_cores'' = None"
    "ps ''LOW_DR'' = None" "ps ''UP_DR'' = None" "ps ''KS_cut'' = None"
    "ps ''distance'' = None" "ps ''cell_line'' = None"
  shows "optional_arguments ps = []"
  using assms by (simp add: optional_arguments_def opt_str_def opt_raw_def)

lemma demo_command:
  "build_r_command r_script_path demo_params =
     Inr [PStr ''Rscript'', PStr ''backend/r_scripts/copykat_analysis.R'',
          PStr ''--input'', PStr ''data/matrix.txt'', PStr ''--output'', PStr ''out'',
          PStr ''--name'', PStr ''s1'', PStr ''--genome'', PStr ''hg20'']"
  by (simp add: demo_params_def build_r_command_def optional_arguments_def
      opt_str_def opt_raw_def r_script_path_def)

text \<open>
  C2. The four required arguments and the eight options \<^verbatim>\<open>ngene_chr\<close>,
  \<^verbatim>\<open>win_size\<close>, \<^verbatim>\<open>n_cores\<close>, \<^verbatim>\<open>LOW_DR\<close>, \<^verbatim>\<open>UP_DR\<close>, \<^verbatim>\<open>KS_cut\<close>,
  \<^verbatim>\<open>distance\<close>, \<^verbatim>\<open>cell_line\<close> are emitted, but \<^verbatim>\<open>plot_genes\<close>, which the
  docstring of \<^verbatim>\<open>run_copykat_analysis\<close> lists among the optional keys, is not: with
  \<^verbatim>\<open>plot_genes\<close> present in the dictionary, the command has no argument for it.
\<close>

theorem build_r_command_drops_plot_genes:
  "plot_params ''plot_genes'' = Some (PBool False)
   \<and> build_r_command r_script_path plot_params =
       Inr [PStr ''Rscript'', PStr ''backend/r_scripts/copykat_analysis.R'',
            PStr ''--input'', PStr ''data/matrix.txt'', PStr ''--output'', PStr ''out'',
            PStr ''--name'', PStr ''s1'', PStr ''--genome'', PStr ''hg20'',
            PStr ''--cores'', PStr ''4'']"
  by (simp add: plot_params_def demo_params_def build_r_command_def optional_arguments_def
      opt_str_def opt_raw_def r_script_path_def str_int_def digit_char_def)

section \<open>A failing engine\<close>

text \<open>
  C6, as the code has it. When all command arguments are strings and the engine exits
  with a code other than 0, the result is the failure with no output directory whose
  error is \<^verbatim>\<open>R script failed: \<close> followed by the captured stderr; the exit code is
  not part of it.
\<close>

theorem run_copykat_analysis_engine_failure:
  assumes cmd: "build_r_command r_script_path ps = Inr command"
    and present: "first_missing ps required_params = None"
    and strs: "list_all is_PStr command"
    and ran: "subprocess_run w (map the_PStr command) = Inr (rc, out, err)"
    and nz: "rc \<noteq> 0"
  shows "run_copykat_analysis w ps =
           (Inr \<lparr>success = False, error = Some (''R script failed: '' @ err),
                 output_dir = None, files = [], summary = None, runtime_minutes = 0,
                 timestamp = None\<rparr>, [command])
         \<and> sublist err (''R script failed: '' @ err)"
proof -
  have f: "filter (\<lambda>v. \<not> is_PStr v) command = []"
    using strs by (simp add: filter_empty_conv list_all_iff)
  have "py_subprocess_run w command = Inl (CalledProcessError rc err)"
    using ran nz by (simp add: py_subprocess_run_def f)
  then have "run_try w ps command = Inl (CalledProcessError rc err)"
    by (simp add: run_try_def)
  then have "run_copykat_analysis w ps = (Inr (failure (''R script failed: '' @ err) 0), [command])"
    using cmd present by (simp add: run_copykat_analysis_def)
  moreover have "sublist err (''R script failed: '' @ err)"
    by (rule sublist_append_leftI)
  ultimately show ?thesis by (simp add: failure_def)
qed

lemma demo_params_complete: "first_missing demo_params required_params = None"
  by (simp add: demo_params_def required_params_def)

lemma failing_run:
  "run_copykat_analysis failing_world demo_params =
     (Inr \<lparr>success = False, error = Some ''R script failed: boom'',
           output_dir = None, files = [], summary = None, runtime_minutes = 0,
           timestamp = None\<rparr>,
      [[PStr ''Rscript'', PStr ''backend/r_scripts/copykat_analysis.R'',
        PStr ''--input'', PStr ''data/matrix.txt'', PStr ''--output'', PStr ''out'',
        PStr ''--name'', PStr ''s1'', PStr ''--genome'', PStr ''hg20'']])"
  by (simp add: run_copykat_analysis_def demo_params_complete demo_command run_try_def
      py_subprocess_run_def failing_world_def demo_world_def failure_def)

theorem run_copykat_analysis_engine_failure_witness:
  "run_copykat_analysis failing_world demo_params =
     (Inr \<lparr>success = False, error = Some ''R script failed: boom'',
           output_dir = None, files = [], summary = None, runtime_minutes = 0,
           timestamp = None\<rparr>,
      [[PStr ''Rscript'', PStr ''backend/r_scripts/copykat_analysis.R'',
        PStr ''--input'', PStr ''data/matrix.txt'', PStr ''--output'', PStr ''out'',
        PStr ''--name'', PStr ''s1'', PStr ''--genome'', PStr ''hg20'']])"
proof -
  have p: "first_missing demo_params required_params = None"
    by (simp add: demo_params_def required_params_def)
  have r: "subprocess_run failing_world
      (map the_PStr [PStr ''Rscript'', PStr ''backend/r_scripts/copykat_analysis.R'',
          PStr ''--input'', PStr ''data/matrix.txt'', PStr ''--output'', PStr ''out'',
          PStr ''--name'', PStr ''s1'', PStr ''--genome'', PStr ''hg20'']) = Inr (1, [], ''boom'')"
    by (simp add: failing_world_def demo_world_def)
  from run_copykat_analysis_engine_failure[OF demo_command p _ r]
  show ?thesis by simp
qed

text \<open>
  C6 as it is written fails on the exit code: with exit code 1 and \<^verbatim>\<open>boom\<close> on stderr
  the error string is \<^verbatim>\<open>R script failed: boom\<close>, in which \<^verbatim>\<open>1\<close> does not occur.
\<close>

theorem run_copykat_analysis_exit_code_counterexample:
  "subprocess_run failing_world
      [''Rscript'', ''backend/r_scripts/copykat_analysis.R'', ''--input'', ''data/matrix.txt'',
       ''--output'', ''out'', ''--name'', ''s1'', ''--genome'', ''hg20''] = Inr (1, [], ''boom'')
   \<and> fst (run_copykat_analysis failing_world demo_params) =
       Inr \<lparr>success = False, error = Some ''R script failed: boom'',
            output_dir = None, files = [], summary = None, runtime_minutes = 0,
            timestamp = None\<rparr>
   \<and> str_int 1 = ''1''
   \<and> \<not> sublist ''1'' ''R script failed: boom''"
proof -
  have a: "subprocess_run failing_world
      [''Rscript'', ''backend/r_scripts/copykat_analysis.R'', ''--input'', ''data/matrix.txt'',
       ''--output'', ''out'', ''--name'', ''s1'', ''--genome'', ''hg20''] = Inr (1, [], ''boom'')"
    by (simp add: failing_world_def)
  have b: "fst (run_copykat_analysis failing_world demo_params) =
       Inr \<lparr>success = False, error = Some ''R script failed: boom'',
            output_dir = None, files = [], summary = None, runtime_minutes = 0,
            timestamp = None\<rparr>"
    by (simp add: failing_run)
  have c: "str_int 1 = ''1''" by (simp add: str_int_def digit_char_def)
  have d: "\<not> sublist ''1'' ''R script failed: boom''" by (simp add: sublist_code)
  show ?thesis using a b c d by blast
qed

section \<open>Unreadable result files\<close>

text \<open>
  C4, as the code has it. \<^verbatim>\<open>extract_summary_statistics\<close> raises no parse error: the
  only exception that leaves it is that of \<^verbatim>\<open>Path(predictions_file).exists()\<close>, which is
  evaluated before the \<^verbatim>\<open>try\<close>. When that test answers: without a predictions file
  (no entry, an empty path, or a path that does not exist) the summary is all zero; with
  a predictions file that \<^verbatim>\<open>read_csv\<close> cannot read the exception is dropped and the
  summary is all zero; with a file that parses and has no \<^verbatim>\<open>copykat.pred\<close> column the
  summary has the number of rows and zeros elsewhere. The error for an unreadable file is
  raised by \<^verbatim>\<open>parse_predictions\<close> only, as a \<^verbatim>\<open>ValueError\<close> whose message is
  \<^verbatim>\<open>Error parsing predictions file: \<close> followed by the message of the parser.
\<close>

theorem extract_summary_statistics_swallows:
  "(\<forall>e. extract_summary_statistics w fs = Inl e \<longrightarrow>
      (\<exists>p. map_of fs ''predictions'' = Some p \<and> p \<noteq> [] \<and> path_exists w p = Inl e))
   \<and> (\<forall>p e. map_of fs ''predictions'' = Some p \<and> p \<noteq> [] \<and> path_exists w p = Inl e \<longrightarrow>
         extract_summary_statistics w fs = Inl e)
   \<and> (map_of fs ''predictions'' = None \<longrightarrow> extract_summary_statistics w fs = Inr zero_summary)
   \<and> (\<forall>p. map_of fs ''predictions'' = Some p \<and> (p = [] \<or> path_exists w p = Inr False) \<longrightarrow>
         extract_summary_statistics w fs = Inr zero_summary)
   \<and> (\<forall>p e. map_of fs ''predictions'' = Some p \<and> p \<noteq> [] \<and> path_exists w p = Inr True
            \<and> read_csv w p = Inl e \<longrightarrow>
         extract_summary_statistics w fs = Inr zero_summary)
   \<and> (\<forall>p t. map_of fs ''predictions'' = Some p \<and> p \<noteq> [] \<and> path_exists w p = Inr True
            \<and> read_csv w p = Inr t \<and> column t ''copykat.pred'' = None \<longrightarrow>
         extract_summary_statistics w fs = Inr (zero_summary\<lparr>n_cells := n_rows t\<rparr>))
   \<and> (\<forall>p e. read_csv w p = Inl e \<longrightarrow>
         parse_predictions w p =
           Inl (ValueError (''Error parsing predictions file: '' @ exn_str e)))"
proof -
  have 1: "\<forall>e. extract_summary_statistics w fs = Inl e \<longrightarrow>
      (\<exists>p. map_of fs ''predictions'' = Some p \<and> p \<noteq> [] \<and> path_exists w p = Inl e)"
    using extract_summary_statistics_exn by blast
  have 2: "\<forall>p e. map_of fs ''predictions'' = Some p \<and> p \<noteq> [] \<and> path_exists w p = Inl e \<longrightarrow>
         extract_summary_statistics w fs = Inl e"
    by (simp add: extract_summary_statistics_def)
  have 3: "map_of fs ''predictions'' = None \<longrightarrow>
         extract_summary_statistics w fs = Inr zero_summary"
    by (simp add: extract_summary_statistics_def)
  have 4: "\<forall>p. map_of fs ''predictions'' = Some p \<and> (p = [] \<or> path_exists w p = Inr False) \<longrightarrow>
         extract_summary_statistics w fs = Inr zero_summary"
    by (auto simp: extract_summary_statistics_def)
  have 5: "\<forall>p e. map_of fs ''predictions'' = Some p \<and> p \<noteq> [] \<and> path_exists w p = Inr True
            \<and> read_csv w p = Inl e \<longrightarrow>
         extract_summary_statistics w fs = Inr zero_summary"
    by (simp add: extract_summary_statistics_def summary_try_def)
  have 6: "\<forall>p t. map_of fs ''predictions'' = Some p \<and> p \<noteq> [] \<and> path_exists w p = Inr True
            \<and> read_csv w p = Inr t \<and> column t ''copykat.pred'' = None \<longrightarrow>
         extract_summary_statistics w fs = Inr (zero_summary\<lparr>n_cells := n_rows t\<rparr>)"
    by (simp add: extract_summary_statistics_def summary_try_def count_predictions_def)
  have 7: "\<forall>p e. read_csv w p = Inl e \<longrightarrow>
         parse_predictions w p =
           Inl (ValueError (''Error parsing predictions file: '' @ exn_str e))"
    by (simp add: parse_predictions_def)
  show ?thesis using 1 2 3 4 5 6 7 by blast
qed

theorem extract_summary_statistics_swallows_witness:
  "read_csv malformed_world ''p.txt'' = Inl (ValueError ''Error tokenizing data'')
   \<and> path_exists malformed_world ''p.txt'' = Inr True
   \<and> extract_summary_statistics malformed_world [(''predictions'', ''p.txt'')] = Inr zero_summary
   \<and> parse_predictions malformed_world ''p.txt'' =
        Inl (ValueError ''Error parsing predictions file: Error tokenizing data'')
   \<and> extract_summary_statistics demo_world [] = Inr zero_summary
   \<and> path_exists unreachable_world ''p.txt'' = Inl (OSError ''[Errno 13] Permission denied'')
   \<and> extract_summary_statistics unreachable_world [(''predictions'', ''p.txt'')] =
        Inl (OSError ''[Errno 13] Permission denied'')
   \<and> read_csv unlabelled_world ''p.txt'' = Inr unlabelled_table
   \<and> extract_summary_statistics unlabelled_world [(''predictions'', ''p.txt'')] =
        Inr \<lparr>n_cells = 2, n_aneuploid = 0, n_diploid = 0, n_not_defined = 0,
             aneuploid_fraction = 0, mean_confidence = None\<rparr>"
proof -
  have r: "read_csv malformed_world ''p.txt'' = Inl (ValueError ''Error tokenizing data'')"
    by (simp add: malformed_world_def)
  have x: "path_exists malformed_world ''p.txt'' = Inr True"
    by (simp add: malformed_world_def demo_world_def)
  have m: "map_of [(''predictions'', ''p.txt'')] ''predictions'' = Some ''p.txt''" by simp
  have ne: "''p.txt'' \<noteq> []" by simp
  have n: "map_of ([] :: (string \<times> string) list) ''predictions'' = None" by simp
  from extract_summary_statistics_swallows[of malformed_world "[(''predictions'', ''p.txt'')]"]
    r x m ne
  have 1: "extract_summary_statistics malformed_world [(''predictions'', ''p.txt'')] = Inr zero_summary"
    by blast
  from extract_summary_statistics_swallows[of malformed_world "[(''predictions'', ''p.txt'')]"] r
  have "parse_predictions malformed_world ''p.txt'' =
        Inl (ValueError (''Error parsing predictions file: '' @ exn_str (ValueError ''Error tokenizing data'')))"
    by blast
  then have 2: "parse_predictions malformed_world ''p.txt'' =
        Inl (ValueError ''Error parsing predictions file: Error tokenizing data'')" by simp
  from extract_summary_statistics_swallows[of demo_world "[]"] n
  have 3: "extract_summary_statistics demo_world [] = Inr zero_summary" by blast
  have u: "path_exists unreachable_world ''p.txt'' = Inl (OSError ''[Errno 13] Permission denied'')"
    by (simp add: unreachable_world_def)
  from extract_summary_statistics_swallows[of unreachable_world "[(''predictions'', ''p.txt'')]"]
    u m ne
  have 4: "extract_summary_statistics unreachable_world [(''predictions'', ''p.txt'')] =
        Inl (OSError ''[Errno 13] Permission denied'')"
    by blast
  have lr: "read_csv unlabelled_world ''p.txt'' = Inr unlabelled_table"
    by (simp add: unlabelled_world_def)
  have lx: "path_exists unlabelled_world ''p.txt'' = Inr True"
    by (simp add: unlabelled_world_def demo_world_def)
  have lc: "column unlabelled_table ''copykat.pred'' = None"
    by (simp add: column_def unlabelled_table_def)
  from extract_summary_statistics_swallows[of unlabelled_world "[(''predictions'', ''p.txt'')]"]
    lr lx lc m ne
  have "extract_summary_statistics unlabelled_world [(''predictions'', ''p.txt'')] =
        Inr (zero_summary\<lparr>n_cells := n_rows unlabelled_table\<rparr>)"
    by blast
  then have 5: "extract_summary_statistics unlabelled_world [(''predictions'', ''p.txt'')] =
        Inr \<lparr>n_cells = 2, n_aneuploid = 0, n_diploid = 0, n_not_defined = 0,
             aneuploid_fraction = 0, mean_confidence = None\<rparr>"
    by (simp add: zero_summary_def unlabelled_table_def)
  show ?thesis using r x 1 2 3 u 4 lr 5 by blast
qed

text \<open>
  C4 as it is written fails on a predictions file that exists and cannot be parsed: the
  summary is returned, all zero, and nothing is raised.
\<close>

theorem extract_summary_statistics_malformed_counterexample:
  "path_exists malformed_world ''out/s1_a/s1_copykat_prediction.txt'' = Inr True
   \<and> read_csv malformed_world ''out/s1_a/s1_copykat_prediction.txt''
       = Inl (ValueError ''Error tokenizing data'')
   \<and> extract_summary_statistics malformed_world
         [(''predictions'', ''out/s1_a/s1_copykat_prediction.txt'')] =
       Inr \<lparr>n_cells = 0, n_aneuploid = 0, n_diploid = 0, n_not_defined = 0,
            aneuploid_fraction = 0, mean_confidence = None\<rparr>"
  by (simp add: extract_summary_statistics_def summary_try_def malformed_world_def
      demo_world_def zero_summary_def)

section \<open>Paths that cannot be examined\<close>

text \<open>
  Inside \<^verbatim>\<open>run_copykat_analysis\<close> the exceptions of the locator and of the file tests
  are caught: where no path can be examined, the run is a failure with the message of the
  exception.
\<close>

lemma unreachable_run:
  "fst (run_copykat_analysis unreachable_world demo_params) =
     Inr \<lparr>success = False,
          error = Some ''Unexpected error: [Errno 13] Permission denied'',
          output_dir = None, files = [], summary = None, runtime_minutes = 0,
          timestamp = None\<rparr>"
proof -
  have "run_try unreachable_world demo_params
          [PStr ''Rscript'', PStr ''backend/r_scripts/copykat_analysis.R'',
           PStr ''--input'', PStr ''data/matrix.txt'', PStr ''--output'', PStr ''out'',
           PStr ''--name'', PStr ''s1'', PStr ''--genome'', PStr ''hg20'']
        = Inl (OSError ''[Errno 13] Permission denied'')"
    by (simp add: run_try_def py_subprocess_run_def unreachable_world_def demo_world_def
        find_output_directory_def demo_params_def)
  then show ?thesis
    by (simp add: run_copykat_analysis_def demo_params_complete demo_command failure_def)
qed

end
